theory Spec2Isabelle
  imports Main "HOL-Library.AList"
begin

section \<open>The per-paper chat-session cache of \<^verbatim>\<open>src/assets/js/search.js\<close>\<close>

text \<open>
  The development embeds the chat-session logic of \<^verbatim>\<open>search.js\<close>:
  \<^verbatim>\<open>checkExistingChatSession\<close>, \<^verbatim>\<open>initChatModal\<close>, the click handler of the
  ask button, \<^verbatim>\<open>sendQuestion\<close> and \<^verbatim>\<open>updateChatSessionInSidebar\<close>.
  Asynchronous functions are run to completion one after the other; every effect the
  functions have (local storage, the two context variables, the chat container, the
  sidebar list, network requests, console errors) is a field of an explicit state or an
  entry of its trace, and every JavaScript exception is a value.
\<close>

subsection \<open>JSON values as JavaScript sees them\<close>

text \<open>
  The values \<^verbatim>\<open>JSON.parse\<close> returns. Numbers are kept as integers (session ids are
  the only numbers the code looks at). \<open>JDate t\<close> is the string
  \<^verbatim>\<open>new Date(t).toISOString()\<close>, kept as the instant \<open>t\<close> (milliseconds) it
  denotes; to JavaScript it is a non-empty string. An object is the list of its own
  properties; the order of the list is the model's own and is never observed.
\<close>

datatype jsval =
    JNull
  | JBool bool
  | JNum int
  | JStr string
  | JDate nat
  | JArr "jsval list"
  | JObj "(string \<times> jsval) list"

datatype jstype = TObject | TBoolean | TNumber | TString

fun typeof :: "jsval \<Rightarrow> jstype" where
  "typeof JNull = TObject"
| "typeof (JBool b) = TBoolean"
| "typeof (JNum n) = TNumber"
| "typeof (JStr s) = TString"
| "typeof (JDate t) = TString"
| "typeof (JArr xs) = TObject"
| "typeof (JObj kvs) = TObject"

text \<open>Truthiness, as \<^verbatim>\<open>if (v)\<close>, \<^verbatim>\<open>v || d\<close> and \<^verbatim>\<open>!!v\<close> test it.\<close>

fun truthy :: "jsval \<Rightarrow> bool" where
  "truthy JNull = False"
| "truthy (JBool b) = b"
| "truthy (JNum n) = (n \<noteq> 0)"
| "truthy (JStr s) = (s \<noteq> [])"
| "truthy (JDate t) = True"
| "truthy (JArr xs) = True"
| "truthy (JObj kvs) = True"

text \<open>\<open>None\<close> stands for \<^verbatim>\<open>undefined\<close> (and for \<^verbatim>\<open>null\<close> in a variable).\<close>

definition truthy_opt :: "jsval option \<Rightarrow> bool" where
  "truthy_opt v = (case v of None \<Rightarrow> False | Some x \<Rightarrow> truthy x)"

text \<open>\<^verbatim>\<open>v || d\<close> with a default \<open>d\<close> that is a value.\<close>

definition or_else :: "jsval option \<Rightarrow> jsval \<Rightarrow> jsval" where
  "or_else v d = (case v of None \<Rightarrow> d | Some x \<Rightarrow> if truthy x then x else d)"

datatype exn = SyntaxError | TypeError | QuotaExceededError | FetchFailed

text \<open>
  Property access \<^verbatim>\<open>v[k]\<close> and \<^verbatim>\<open>v.k\<close>. Reading a property of \<^verbatim>\<open>null\<close>
  throws a TypeError; an object yields its own property; every other value yields
  \<^verbatim>\<open>undefined\<close>. The keys in use (paper ids and the field names of the code) are
  taken not to be property names of the built-in prototypes, array indices or
  \<^verbatim>\<open>length\<close>.
\<close>

fun property :: "jsval \<Rightarrow> string \<Rightarrow> jsval option" where
  "property (JObj kvs) k = map_of kvs k"
| "property v k = None"

definition get_prop :: "jsval \<Rightarrow> string \<Rightarrow> exn + jsval option" where
  "get_prop v k = (if v = JNull then Inl TypeError else Inr (property v k))"

text \<open>
  Assignment \<^verbatim>\<open>v[k] = x\<close> (the scripts are not in strict mode: assigning to a
  property of a primitive is ignored, and a named property put on an array is dropped by
  \<^verbatim>\<open>JSON.stringify\<close>), and \<^verbatim>\<open>delete v[k]\<close>.
\<close>

fun set_prop :: "jsval \<Rightarrow> string \<Rightarrow> jsval \<Rightarrow> exn + jsval" where
  "set_prop JNull k x = Inl TypeError"
| "set_prop (JObj kvs) k x = Inr (JObj (AList.update k x kvs))"
| "set_prop v k x = Inr v"

fun delete_prop :: "jsval \<Rightarrow> string \<Rightarrow> jsval" where
  "delete_prop (JObj kvs) k = JObj (AList.delete k kvs)"
| "delete_prop v k = v"

subsection \<open>Local storage, the remote authority and the page\<close>

text \<open>
  The item \<^verbatim>\<open>chatSessions\<close> of \<^verbatim>\<open>localStorage\<close>: missing (or the empty string,
  which \<^verbatim>\<open>|| "{}"\<close> replaces as well), a string that is not JSON, or a string that
  parses to a value. \<^verbatim>\<open>JSON.stringify\<close> followed by a later \<^verbatim>\<open>JSON.parse\<close>
  gives back the value written.
\<close>

datatype stored = NoItem | Unparseable | Parsed jsval

text \<open>
  A \<^verbatim>\<open>fetch\<close> either rejects or resolves to a response with a status and a body;
  the body is \<open>None\<close> when \<^verbatim>\<open>response.json()\<close> rejects.
\<close>

datatype fetch_result = NetworkError | Response nat "jsval option"

definition ok :: "nat \<Rightarrow> bool" where
  "ok status = (200 \<le> status \<and> status \<le> 299)"

record paper_context =
  ctx_id :: string
  ctx_title :: string
  ctx_authors :: string
  ctx_abstract :: string
  pdf_url :: "string option"
  has_local_pdf :: bool
  chat_session_id :: "jsval option"

record paper =
  paper_authors :: "string option"
  paper_abstract :: "string option"
  paper_summary :: "string option"
  paper_pdf_url :: "string option"

text \<open>The body and the headers of the POST to \<^verbatim>\<open>/api/ai/question\<close>.\<close>

record request =
  req_question :: string
  req_paper_id :: string
  req_paper_title :: string
  req_context :: paper_context
  req_pdf_url :: "string option"
  req_guest_mode :: bool
  req_session_id :: "jsval option"
  req_authorization :: "string option"
  req_csrf :: "jsval option"

text \<open>
  What the functions cannot decide themselves: the answers of the server, the cookie,
  whether \<^verbatim>\<open>localStorage.setItem\<close> accepts a value (it throws when the quota is
  exceeded or storage is disabled), the clock, whether the script that defines
  \<^verbatim>\<open>window.addChatSessionToSidebar\<close> is loaded, the text a template literal
  \<^verbatim>\<open>`${v}`\<close> gives for a value (\<open>toText\<close>), and what the CSS parser of the
  browser reads from a quoted text that has a backslash (an escape) or a NUL in it
  (\<open>cssRead\<close>; \<open>None\<close> when the selector does not parse).
\<close>

record env =
  fetchSession :: "jsval \<Rightarrow> fetch_result"
  fetchPaperSession :: "string \<Rightarrow> fetch_result"
  fetchCsrfToken :: fetch_result
  postQuestion :: "request \<Rightarrow> fetch_result"
  csrfCookie :: "string option"
  storageAccepts :: "jsval \<Rightarrow> bool"
  clock :: nat
  sidebarScriptLoaded :: bool
  toText :: "jsval \<Rightarrow> string"
  cssRead :: "string \<Rightarrow> string option"

datatype event =
    GetItemChatSessions
  | SetItemChatSessions jsval bool
  | FetchSession jsval
  | FetchPaperSession string
  | FetchCsrfToken
  | PostQuestion request
  | ConsoleError
  | OpenChatSession jsval
  | LoadChatHistory jsval
  | ShowChatModal
  | Timeout string

text \<open>
  The children of \<^verbatim>\<open>#chatContainer\<close>: a \<^verbatim>\<open>.message-bubble\<close> carries the
  message it was created with and whether it is the user's.
\<close>

datatype chat_node =
    MessageBubble "jsval option" bool
  | TypingIndicator
  | WelcomeMessage string

record history_item =
  data_session_id :: string
  item_question :: "string option"
  item_title :: "string option"
  item_date :: "nat option"

text \<open>
  \<open>currentPaperContext\<close> is the variable declared with \<^verbatim>\<open>let\<close> inside the
  \<^verbatim>\<open>DOMContentLoaded\<close> callback, which \<^verbatim>\<open>sendQuestion\<close> reads;
  \<open>window_currentPaperContext\<close> is the property of \<^verbatim>\<open>window\<close> that
  \<^verbatim>\<open>initChatModal\<close> assigns. The \<^verbatim>\<open>.history-item\<close> elements of the document
  are kept in document order, in three parts: \<open>historyItemsBefore\<close> holds those that
  come before the first \<^verbatim>\<open>.chat-history-list\<close> element (all of them when there is
  no such element), \<open>historyList\<close> those inside that element, each with whether the
  element is its \<^verbatim>\<open>parentNode\<close> (\<open>None\<close>: no such element), and
  \<open>historyItemsAfter\<close> those that come after it.
\<close>

record state =
  token :: "string option"
  chatSessions :: stored
  currentPaperContext :: "paper_context option"
  window_currentPaperContext :: "paper_context option"
  modalQuestionInput :: string
  chatContainer :: "chat_node list"
  historyItemsBefore :: "history_item list"
  historyList :: "(history_item \<times> bool) list option"
  historyItemsAfter :: "history_item list"
  trace :: "event list"

definition emit :: "event \<Rightarrow> state \<Rightarrow> state" where
  "emit e s = s\<lparr>trace := trace s @ [e]\<rparr>"

definition getToken :: "state \<Rightarrow> string option" where
  "getToken s = token s"

definition isUserLoggedIn :: "state \<Rightarrow> bool" where
  "isUserLoggedIn s = (case token s of None \<Rightarrow> False | Some t \<Rightarrow> t \<noteq> [])"

text \<open>\<^verbatim>\<open>JSON.parse(localStorage.getItem("chatSessions") || "{}")\<close>\<close>

definition readSavedSessions :: "state \<Rightarrow> (exn + jsval) \<times> state" where
  "readSavedSessions s =
     (case chatSessions s of
        NoItem \<Rightarrow> (Inr (JObj []), emit GetItemChatSessions s)
      | Unparseable \<Rightarrow> (Inl SyntaxError, emit GetItemChatSessions s)
      | Parsed v \<Rightarrow> (Inr v, emit GetItemChatSessions s))"

text \<open>\<^verbatim>\<open>localStorage.setItem("chatSessions", JSON.stringify(savedSessions))\<close>\<close>

definition writeSavedSessions :: "env \<Rightarrow> jsval \<Rightarrow> state \<Rightarrow> exn option \<times> state" where
  "writeSavedSessions env v s =
     (if storageAccepts env v
      then (None, emit (SetItemChatSessions v True) (s\<lparr>chatSessions := Parsed v\<rparr>))
      else (Some QuotaExceededError, emit (SetItemChatSessions v False) s))"

subsection \<open>Session resolution: \<^verbatim>\<open>checkExistingChatSession\<close>\<close>

text \<open>
  The block that \<^verbatim>\<open>checkExistingChatSession\<close> (lines 1929-1942) and
  \<^verbatim>\<open>initChatModal\<close> (lines 1861-1878) both apply to \<^verbatim>\<open>savedSessions[paperId]\<close>:
  a truthy object with a truthy \<^verbatim>\<open>sessionId\<close> gives that field, a truthy number or
  string (the legacy format) gives itself, anything else gives \<^verbatim>\<open>null\<close>.
\<close>

definition storedSessionId :: "jsval option \<Rightarrow> jsval option" where
  "storedSessionId entry =
     (case entry of
        None \<Rightarrow> None
      | Some v \<Rightarrow>
          if \<not> truthy v then None
          else if typeof v = TObject \<and> truthy_opt (property v ''sessionId'')
            then property v ''sessionId''
          else if typeof v = TNumber \<or> typeof v = TString then Some v
          else None)"

text \<open>
  Lines 1944-1977: the cached id is verified with
  \<^verbatim>\<open>GET /api/ai/chat-sessions/<id>\<close>. The result is the id to return at once, if
  any, and the in-memory \<^verbatim>\<open>savedSessions\<close> as the second step will see it.
\<close>

definition verifySavedSession ::
  "env \<Rightarrow> string \<Rightarrow> jsval \<Rightarrow> jsval option \<Rightarrow> state \<Rightarrow> (jsval option \<times> jsval) \<times> state" where
  "verifySavedSession env paperId savedSessions entry s =
     (case storedSessionId entry of
        None \<Rightarrow> ((None, savedSessions), s)
      | Some sessionId \<Rightarrow>
          (case fetchSession env sessionId of
             NetworkError \<Rightarrow>
               ((None, savedSessions), emit ConsoleError (emit (FetchSession sessionId) s))
           | Response status body \<Rightarrow>
               if ok status then ((Some sessionId, savedSessions), emit (FetchSession sessionId) s)
               else
                 (case writeSavedSessions env (delete_prop savedSessions paperId)
                         (emit (FetchSession sessionId) s) of
                    (None, s') \<Rightarrow> ((None, delete_prop savedSessions paperId), s')
                  | (Some e, s') \<Rightarrow>
                      ((None, delete_prop savedSessions paperId), emit ConsoleError s'))))"

text \<open>The record that line 1997 stores for a session the server found.\<close>

definition serverRecord :: "string \<Rightarrow> jsval \<Rightarrow> jsval \<Rightarrow> jsval" where
  "serverRecord paperId sid data =
     JObj [(''sessionId'', sid),
           (''title'', or_else (property data ''paper_title'') (JStr ''Unknown Paper'')),
           (''paperId'', JStr paperId),
           (''persistentSession'', JBool True)]"

text \<open>
  Lines 1980-2019: \<^verbatim>\<open>GET /api/ai/paper-chat-session/<paperId>\<close>; everything that
  throws inside the \<^verbatim>\<open>try\<close> is logged and the function returns \<^verbatim>\<open>null\<close>.
\<close>

definition lookupPaperSession ::
  "env \<Rightarrow> string \<Rightarrow> jsval \<Rightarrow> state \<Rightarrow> jsval option \<times> state" where
  "lookupPaperSession env paperId savedSessions s =
     (case fetchPaperSession env paperId of
        NetworkError \<Rightarrow> (None, emit ConsoleError (emit (FetchPaperSession paperId) s))
      | Response status body \<Rightarrow>
          if \<not> ok status then (None, emit (FetchPaperSession paperId) s)
          else
            (case body of
               None \<Rightarrow> (None, emit ConsoleError (emit (FetchPaperSession paperId) s))
             | Some data \<Rightarrow>
                 (case get_prop data ''session_id'' of
                    Inl e \<Rightarrow> (None, emit ConsoleError (emit (FetchPaperSession paperId) s))
                  | Inr None \<Rightarrow> (None, emit (FetchPaperSession paperId) s)
                  | Inr (Some sid) \<Rightarrow>
                      if \<not> truthy sid then (None, emit (FetchPaperSession paperId) s)
                      else
                        (case set_prop savedSessions paperId (serverRecord paperId sid data) of
                           Inl e \<Rightarrow>
                             (None, emit ConsoleError (emit (FetchPaperSession paperId) s))
                         | Inr savedSessions' \<Rightarrow>
                             (case writeSavedSessions env savedSessions'
                                     (emit (FetchPaperSession paperId) s) of
                                (None, s') \<Rightarrow> (Some sid, s')
                              | (Some e, s') \<Rightarrow> (None, emit ConsoleError s'))))))"

text \<open>
  The whole function. \<^verbatim>\<open>JSON.parse\<close> and \<^verbatim>\<open>savedSessions[paperId]\<close> stand
  outside every \<^verbatim>\<open>try\<close>: what they throw rejects the promise the function returns
  (\<open>Inl\<close>).
\<close>

definition checkExistingChatSession ::
  "env \<Rightarrow> string \<Rightarrow> state \<Rightarrow> (exn + jsval option) \<times> state" where
  "checkExistingChatSession env paperId s =
     (if \<not> isUserLoggedIn s then (Inr None, s)
      else
        (case readSavedSessions s of
           (Inl e, s1) \<Rightarrow> (Inl e, s1)
         | (Inr savedSessions, s1) \<Rightarrow>
             (case get_prop savedSessions paperId of
                Inl e \<Rightarrow> (Inl e, s1)
              | Inr entry \<Rightarrow>
                  (case verifySavedSession env paperId savedSessions entry s1 of
                     ((Some sessionId, _), s2) \<Rightarrow> (Inr (Some sessionId), s2)
                   | ((None, savedSessions'), s2) \<Rightarrow>
                       (case lookupPaperSession env paperId savedSessions' s2 of
                          (r, s3) \<Rightarrow> (Inr r, s3))))))"

subsection \<open>Opening a conversation: \<^verbatim>\<open>initChatModal\<close> and the ask button\<close>

definition str_or :: "string option \<Rightarrow> string \<Rightarrow> string" where
  "str_or v d = (case v of None \<Rightarrow> d | Some x \<Rightarrow> if x = [] then d else x)"

definition str_or_null :: "string option \<Rightarrow> string option" where
  "str_or_null v = (case v of None \<Rightarrow> None | Some x \<Rightarrow> if x = [] then None else Some x)"

text \<open>
  Lines 1846-1919. \<^verbatim>\<open>loadChatHistory\<close> is started and not awaited, and the PDF
  check is put on a timer: both are entries of the trace. As in
  \<^verbatim>\<open>checkExistingChatSession\<close>, nothing catches what \<^verbatim>\<open>JSON.parse\<close> and
  \<^verbatim>\<open>savedSessions[paperId]\<close> throw.
\<close>

definition initChatModal :: "paper \<Rightarrow> string \<Rightarrow> string \<Rightarrow> state \<Rightarrow> exn option \<times> state" where
  "initChatModal paper paperId paperTitle s =
     (case readSavedSessions (s\<lparr>chatContainer := []\<rparr>) of
        (Inl e, s1) \<Rightarrow> (Some e, s1)
      | (Inr savedSessions, s1) \<Rightarrow>
          (case get_prop savedSessions paperId of
             Inl e \<Rightarrow> (Some e, s1)
           | Inr entry \<Rightarrow>
               (let existingSessionId = storedSessionId entry;
                    s2 = s1\<lparr>window_currentPaperContext := Some
                           \<lparr>ctx_id = paperId,
                            ctx_title = paperTitle,
                            ctx_authors = str_or (paper_authors paper) [],
                            ctx_abstract =
                              str_or (paper_abstract paper) (str_or (paper_summary paper) []),
                            pdf_url = str_or_null (paper_pdf_url paper),
                            has_local_pdf = False,
                            chat_session_id = existingSessionId\<rparr>\<rparr>;
                    s3 = (case existingSessionId of
                            None \<Rightarrow> s2\<lparr>chatContainer := [WelcomeMessage paperTitle]\<rparr>
                          | Some sid \<Rightarrow>
                              if isUserLoggedIn s2 then emit (LoadChatHistory sid) s2
                              else s2\<lparr>chatContainer := [WelcomeMessage paperTitle]\<rparr>)
                in (None, emit (Timeout ''checkPdfAvailabilityForChat'')
                            (s3\<lparr>modalQuestionInput := []\<rparr>)))))"

text \<open>
  Lines 1043-1055 of the click handler: the modal is initialised and shown.
\<close>

definition openChatModal :: "paper \<Rightarrow> string \<Rightarrow> string \<Rightarrow> state \<Rightarrow> exn option \<times> state" where
  "openChatModal paper paperId paperTitle s =
     (case initChatModal paper paperId paperTitle s of
        (Some e, s1) \<Rightarrow> (Some e, s1)
      | (None, s1) \<Rightarrow> (None, emit (Timeout ''focus'') (emit ShowChatModal s1)))"

text \<open>
  Lines 1022-1056, the click handler of \<^verbatim>\<open>.ask-btn\<close>. \<open>paperId\<close> is the value of
  \<^verbatim>\<open>paper.id || Math.random()...\<close>. \<^verbatim>\<open>openChatSession\<close> belongs to another
  script; its call is an entry of the trace.
\<close>

definition askBtn_click ::
  "env \<Rightarrow> paper \<Rightarrow> string \<Rightarrow> string \<Rightarrow> state \<Rightarrow> exn option \<times> state" where
  "askBtn_click env paper paperId paperTitle s =
     (if isUserLoggedIn s then
        (case checkExistingChatSession env paperId s of
           (Inl e, s1) \<Rightarrow> (Some e, s1)
         | (Inr None, s1) \<Rightarrow> openChatModal paper paperId paperTitle s1
         | (Inr (Some existingSessionId), s1) \<Rightarrow>
             if truthy existingSessionId
             then (None, emit (OpenChatSession existingSessionId) s1)
             else openChatModal paper paperId paperTitle s1)
      else openChatModal paper paperId paperTitle s)"

subsection \<open>The sidebar list\<close>

text \<open>
  Modelled from the spec: \<^verbatim>\<open>window.addChatSessionToSidebar\<close> is called by
  \<^verbatim>\<open>sendQuestion\<close> and defined by a script that is not among the sources. The spec
  says of it that the on-screen session list gains a new entry at the head.
\<close>

definition addChatSessionToSidebar ::
  "env \<Rightarrow> jsval \<Rightarrow> string \<Rightarrow> string \<Rightarrow> nat \<Rightarrow> state \<Rightarrow> state" where
  "addChatSessionToSidebar env sessionId question paperTitle date s =
     (case historyList s of
        None \<Rightarrow> s
      | Some items \<Rightarrow>
          s\<lparr>historyList := Some
              ((\<lparr>data_session_id = toText env sessionId,
                 item_question = Some question,
                 item_title = Some paperTitle,
                 item_date = Some date\<rparr>, True) # items)\<rparr>)"

text \<open>
  The selector \<^verbatim>\<open>.history-item[data-session-id="${sessionId}"]\<close> of line 2425: the
  text of the id is put between the quotes as it is. A double quote or a line break in
  the text makes the selector invalid, and \<^verbatim>\<open>querySelector\<close> throws a SyntaxError;
  a text with a backslash or a NUL is read as the CSS parser reads it; any other text is
  the attribute value asked for.
\<close>

definition attrSelectorValue :: "env \<Rightarrow> string \<Rightarrow> string option" where
  "attrSelectorValue env txt =
     (if CHR 0x5C \<in> set txt \<or> CHR 0x00 \<in> set txt then cssRead env txt
      else if CHR 0x22 \<in> set txt \<or> CHR 0x0A \<in> set txt \<or> CHR 0x0C \<in> set txt
              \<or> CHR 0x0D \<in> set txt then None
      else Some txt)"

definition shortQuestion :: "string \<Rightarrow> string" where
  "shortQuestion latestQuestion =
     (if length latestQuestion > 40 then take 40 latestQuestion @ ''...'' else latestQuestion)"

text \<open>
  Lines 2428-2450: the question and the date children of the item, where it has them,
  are rewritten (the date is kept as the instant whose day and month are shown).
\<close>

definition touchItem :: "string \<Rightarrow> nat \<Rightarrow> history_item \<Rightarrow> history_item" where
  "touchItem latestQuestion now historyItem =
     historyItem
       \<lparr>item_question :=
          map_option (\<lambda>_. shortQuestion latestQuestion) (item_question historyItem),
        item_date := map_option (\<lambda>_. now) (item_date historyItem)\<rparr>"

fun update_first :: "('a \<Rightarrow> bool) \<Rightarrow> ('a \<Rightarrow> 'a) \<Rightarrow> 'a list \<Rightarrow> 'a list" where
  "update_first P f [] = []"
| "update_first P f (x # xs) = (if P x then f x # xs else x # update_first P f xs)"

definition historyListItems :: "state \<Rightarrow> (history_item \<times> bool) list" where
  "historyListItems s = (case historyList s of None \<Rightarrow> [] | Some items \<Rightarrow> items)"

text \<open>
  Lines 2423-2461. \<^verbatim>\<open>document.querySelector\<close> gives the first item of the
  document whose \<^verbatim>\<open>data-session-id\<close> is the value asked for, or throws; the item
  is rewritten where it is; it is moved to the front of the list
  (\<^verbatim>\<open>removeChild\<close>, then \<^verbatim>\<open>insertBefore\<close> the first child) only when the
  list element exists and is the \<^verbatim>\<open>parentNode\<close> of the item. The first component
  of the result is what the function throws.
\<close>

definition updateChatSessionInSidebar ::
  "env \<Rightarrow> jsval \<Rightarrow> string \<Rightarrow> state \<Rightarrow> exn option \<times> state" where
  "updateChatSessionInSidebar env sessionId latestQuestion s =
     (case attrSelectorValue env (toText env sessionId) of
        None \<Rightarrow> (Some SyntaxError, s)
      | Some k \<Rightarrow>
          if list_ex (\<lambda>i. data_session_id i = k) (historyItemsBefore s)
          then (None, s\<lparr>historyItemsBefore :=
                  update_first (\<lambda>i. data_session_id i = k)
                    (touchItem latestQuestion (clock env)) (historyItemsBefore s)\<rparr>)
          else
            (case find (\<lambda>x. data_session_id (fst x) = k)
                    (historyListItems s) of
               Some (historyItem, True) \<Rightarrow>
                 (None, s\<lparr>historyList := Some
                    ((touchItem latestQuestion (clock env) historyItem, True)
                     # remove1 (historyItem, True)
                         (historyListItems s))\<rparr>)
             | Some (historyItem, False) \<Rightarrow>
                 (None, s\<lparr>historyList := Some
                    (update_first (\<lambda>x. data_session_id (fst x) = k)
                       (apfst (touchItem latestQuestion (clock env)))
                       (historyListItems s))\<rparr>)
             | None \<Rightarrow>
                 (None, s\<lparr>historyItemsAfter :=
                    update_first (\<lambda>i. data_session_id i = k)
                      (touchItem latestQuestion (clock env)) (historyItemsAfter s)\<rparr>)))"

subsection \<open>Exchanging a message: \<^verbatim>\<open>sendQuestion\<close>\<close>

text \<open>
  \<^verbatim>\<open>String.prototype.trim\<close> on the characters of the model (the white space of
  ASCII).
\<close>

definition is_space :: "char \<Rightarrow> bool" where
  "is_space c = (c \<in> set [CHR 0x20, CHR 0x09, CHR 0x0A, CHR 0x0B, CHR 0x0C, CHR 0x0D])"

definition js_trim :: "string \<Rightarrow> string" where
  "js_trim s = rev (dropWhile is_space (rev (dropWhile is_space s)))"

definition addMessageToChat :: "jsval option \<Rightarrow> bool \<Rightarrow> state \<Rightarrow> state" where
  "addMessageToChat message isUser s =
     s\<lparr>chatContainer := chatContainer s @ [MessageBubble message isUser]\<rparr>"

definition showTypingIndicator :: "state \<Rightarrow> state" where
  "showTypingIndicator s = s\<lparr>chatContainer := chatContainer s @ [TypingIndicator]\<rparr>"

definition removeTypingIndicator :: "state \<Rightarrow> state" where
  "removeTypingIndicator s = s\<lparr>chatContainer := remove1 TypingIndicator (chatContainer s)\<rparr>"

text \<open>
  Lines 35-52, \<^verbatim>\<open>ensureCsrfToken\<close>: the cookie, or else the token the server
  gives; its own \<^verbatim>\<open>try\<close> catches every failure.
\<close>

definition ensureCsrfToken :: "env \<Rightarrow> state \<Rightarrow> jsval option \<times> state" where
  "ensureCsrfToken env s =
     (let csrfToken = map_option JStr (csrfCookie env) in
      if truthy_opt csrfToken then (csrfToken, s)
      else
        (case fetchCsrfToken env of
           NetworkError \<Rightarrow> (csrfToken, emit ConsoleError (emit FetchCsrfToken s))
         | Response status body \<Rightarrow>
             if \<not> ok status then (csrfToken, emit FetchCsrfToken s)
             else
               (case body of
                  None \<Rightarrow> (csrfToken, emit ConsoleError (emit FetchCsrfToken s))
                | Some data \<Rightarrow>
                    (case get_prop data ''csrf_token'' of
                       Inl e \<Rightarrow> (csrfToken, emit ConsoleError (emit FetchCsrfToken s))
                     | Inr v \<Rightarrow> (v, emit FetchCsrfToken s)))))"

text \<open>Lines 1310-1331: the headers and the body of the request.\<close>

definition requestBody :: "state \<Rightarrow> paper_context \<Rightarrow> string \<Rightarrow> jsval option \<Rightarrow> request" where
  "requestBody s ctx question csrfToken =
     \<lparr>req_question = question,
      req_paper_id = ctx_id ctx,
      req_paper_title = ctx_title ctx,
      req_context = ctx,
      req_pdf_url = pdf_url ctx,
      req_guest_mode = (\<not> isUserLoggedIn s),
      req_session_id = (if truthy_opt (chat_session_id ctx) then chat_session_id ctx else None),
      req_authorization = (if isUserLoggedIn s then getToken s else None),
      req_csrf = (if truthy_opt csrfToken then csrfToken else None)\<rparr>"

text \<open>The record that line 1361 stores after an exchange.\<close>

definition sessionRecord :: "paper_context \<Rightarrow> jsval \<Rightarrow> nat \<Rightarrow> jsval" where
  "sessionRecord ctx sid t =
     JObj [(''sessionId'', sid),
           (''title'', JStr (ctx_title ctx)),
           (''paperId'', JStr (ctx_id ctx)),
           (''persistentSession'', JBool True),
           (''lastUsed'', JDate t)]"

text \<open>Lines 1372-1385: the sidebar is touched for a logged-in user only.\<close>

definition updateSidebar ::
  "env \<Rightarrow> jsval \<Rightarrow> jsval \<Rightarrow> string \<Rightarrow> string \<Rightarrow> state \<Rightarrow> exn option \<times> state" where
  "updateSidebar env data sid question paperTitle s =
     (if truthy_opt (property data ''is_new_session'') \<and> isUserLoggedIn s then
        (if sidebarScriptLoaded env
         then (None, addChatSessionToSidebar env sid question paperTitle (clock env) s)
         else (None, s))
      else if isUserLoggedIn s then updateChatSessionInSidebar env sid question s
      else (None, s))"

text \<open>
  Lines 1352-1388: the context takes the session id of the answer, the record is
  written, the sidebar is updated. The result says what was thrown, if anything.
\<close>

definition persistSession :: "env \<Rightarrow> jsval \<Rightarrow> string \<Rightarrow> state \<Rightarrow> exn option \<times> state" where
  "persistSession env data question s =
     (case property data ''session_id'' of
        None \<Rightarrow> (None, s)
      | Some sid \<Rightarrow>
          if \<not> truthy sid then (None, s)
          else
            (case currentPaperContext s of
               None \<Rightarrow> (None, s)
             | Some ctx \<Rightarrow>
                 (case readSavedSessions
                         (s\<lparr>currentPaperContext := Some (ctx\<lparr>chat_session_id := Some sid\<rparr>)\<rparr>) of
                    (Inl e, s1) \<Rightarrow> (Some e, s1)
                  | (Inr savedSessions, s1) \<Rightarrow>
                      (case set_prop savedSessions (ctx_id ctx)
                              (sessionRecord ctx sid (clock env)) of
                         Inl e \<Rightarrow> (Some e, s1)
                       | Inr savedSessions' \<Rightarrow>
                           (case writeSavedSessions env savedSessions' s1 of
                              (Some e, s2) \<Rightarrow> (Some e, s2)
                            | (None, s2) \<Rightarrow>
                                updateSidebar env data sid question (ctx_title ctx) s2)))))"

text \<open>Lines 1390-1411: the reminder for guests is put on a timer.\<close>

definition is_bubble :: "chat_node \<Rightarrow> bool" where
  "is_bubble n = (case n of MessageBubble m u \<Rightarrow> True | _ \<Rightarrow> False)"

definition guestReminder :: "state \<Rightarrow> state" where
  "guestReminder s =
     (if \<not> isUserLoggedIn s \<and> length (filter is_bubble (chatContainer s)) > 4
      then emit (Timeout ''guestReminder'') s else s)"

text \<open>
  Lines 1309-1416, the body of the \<^verbatim>\<open>try\<close>. The result says what was thrown, if
  anything, with the state at that point.
\<close>

definition sendQuestion_try ::
  "env \<Rightarrow> string \<Rightarrow> paper_context \<Rightarrow> state \<Rightarrow> exn option \<times> state" where
  "sendQuestion_try env question ctx s =
     (case ensureCsrfToken env s of
        (csrfToken, s1) \<Rightarrow>
          (case postQuestion env (requestBody s1 ctx question csrfToken) of
             NetworkError \<Rightarrow>
               (Some FetchFailed, emit (PostQuestion (requestBody s1 ctx question csrfToken)) s1)
           | Response status body \<Rightarrow>
               (let s2 = removeTypingIndicator
                           (emit (PostQuestion (requestBody s1 ctx question csrfToken)) s1)
                in if \<not> ok status
                   then (None, addMessageToChat
                           (Some (JStr ''Maaf, terjadi kesalahan dalam memproses pertanyaan Anda.''))
                           False s2)
                   else
                     (case body of
                        None \<Rightarrow> (Some SyntaxError, s2)
                      | Some data \<Rightarrow>
                          (case get_prop data ''used_pdf'' of
                             Inl e \<Rightarrow> (Some e, s2)
                           | Inr used_pdf \<Rightarrow>
                               (case persistSession env data question
                                       (addMessageToChat (property data ''answer'') False s2) of
                                  (Some e, s3) \<Rightarrow> (Some e, s3)
                                | (None, s3) \<Rightarrow> (None, guestReminder s3)))))))"

text \<open>
  Lines 1292-1422. The \<^verbatim>\<open>catch\<close> takes everything the body throws; the first
  component of the result is what \<^verbatim>\<open>sendQuestion\<close> itself throws.
\<close>

definition sendQuestion :: "env \<Rightarrow> state \<Rightarrow> exn option \<times> state" where
  "sendQuestion env s =
     (let question = js_trim (modalQuestionInput s) in
      if question = [] then (None, s)
      else
        (case currentPaperContext s of
           None \<Rightarrow> (None, s)
         | Some ctx \<Rightarrow>
             (case sendQuestion_try env question ctx
                     (showTypingIndicator
                        ((addMessageToChat (Some (JStr question)) True s)
                           \<lparr>modalQuestionInput := []\<rparr>)) of
                (None, s1) \<Rightarrow> (None, s1)
              | (Some e, s1) \<Rightarrow>
                  (None, emit ConsoleError
                     (addMessageToChat
                        (Some (JStr ''Terjadi kesalahan jaringan. Silakan coba lagi.''))
                        False (removeTypingIndicator s1))))))"

subsection \<open>Notions the properties are stated with\<close>

text \<open>
  The entries of the index when the stored item can be read as an object: a missing item
  reads as the empty object.
\<close>

definition indexEntries :: "stored \<Rightarrow> (string \<times> jsval) list option" where
  "indexEntries st =
     (case st of
        NoItem \<Rightarrow> Some []
      | Parsed (JObj kvs) \<Rightarrow> Some kvs
      | _ \<Rightarrow> None)"

text \<open>
  The value \<^verbatim>\<open>savedSessions\<close> holds after the read, for an item that parses, and
  whether \<^verbatim>\<open>savedSessions[paperId]\<close> can be evaluated on it.
\<close>

definition indexValue :: "stored \<Rightarrow> jsval" where
  "indexValue st = (case st of Parsed v \<Rightarrow> v | _ \<Rightarrow> JObj [])"

definition readable :: "stored \<Rightarrow> bool" where
  "readable st = (case st of NoItem \<Rightarrow> True | Unparseable \<Rightarrow> False | Parsed v \<Rightarrow> v \<noteq> JNull)"

text \<open>
  What the lookup by paper id finds: the session id and the body of a successful answer
  that carries a truthy \<^verbatim>\<open>session_id\<close>.
\<close>

definition paperLookup :: "env \<Rightarrow> string \<Rightarrow> (jsval \<times> jsval) option" where
  "paperLookup env paperId =
     (case fetchPaperSession env paperId of
        NetworkError \<Rightarrow> None
      | Response status body \<Rightarrow>
          if \<not> ok status then None
          else
            (case body of
               None \<Rightarrow> None
             | Some data \<Rightarrow>
                 (case property data ''session_id'' of
                    None \<Rightarrow> None
                  | Some sid \<Rightarrow> if truthy sid then Some (sid, data) else None)))"

text \<open>An exchange fails when the request rejects or the status is not a success.\<close>

definition failed :: "fetch_result \<Rightarrow> bool" where
  "failed r = (case r of NetworkError \<Rightarrow> True | Response status body \<Rightarrow> \<not> ok status)"

text \<open>The request \<^verbatim>\<open>sendQuestion\<close> sends from a state, for a context.\<close>

definition sentRequest :: "env \<Rightarrow> state \<Rightarrow> paper_context \<Rightarrow> request" where
  "sentRequest env s ctx =
     requestBody s ctx (js_trim (modalQuestionInput s)) (fst (ensureCsrfToken env s))"

text \<open>The \<^verbatim>\<open>lastUsed\<close> instant of the record stored for a paper, if there is one.\<close>

definition lastUsedAt :: "stored \<Rightarrow> string \<Rightarrow> nat option" where
  "lastUsedAt st paperId =
     (case property (indexValue st) paperId of
        Some (JObj entry) \<Rightarrow>
          (case map_of entry ''lastUsed'' of Some (JDate t) \<Rightarrow> Some t | _ \<Rightarrow> None)
      | _ \<Rightarrow> None)"

text \<open>No stamp is below every stamp; a stamp is never followed by none.\<close>

fun stamp_le :: "nat option \<Rightarrow> nat option \<Rightarrow> bool" where
  "stamp_le None y = True"
| "stamp_le (Some a) None = False"
| "stamp_le (Some a) (Some b) = (a \<le> b)"

text \<open>
  A sequence of exchanges: each one has the world it meets (the answer of the server, the
  clock) and the text typed. \<open>stampHistory\<close> lists the stamp of a paper before the
  first exchange and after each one.
\<close>

fun stampHistory :: "(env \<times> string) list \<Rightarrow> state \<Rightarrow> string \<Rightarrow> nat option list" where
  "stampHistory [] s paperId = [lastUsedAt (chatSessions s) paperId]"
| "stampHistory ((env, text) # rest) s paperId =
     lastUsedAt (chatSessions s) paperId
       # stampHistory rest (snd (sendQuestion env (s\<lparr>modalQuestionInput := text\<rparr>))) paperId"

definition is_history_load :: "event \<Rightarrow> bool" where
  "is_history_load e = (case e of LoadChatHistory sid \<Rightarrow> True | _ \<Rightarrow> False)"

text \<open>
  The state \<^verbatim>\<open>sendQuestion\<close> enters its \<^verbatim>\<open>try\<close> with: the user's bubble
  added, the input cleared, the typing indicator shown.
\<close>

definition prepared :: "string \<Rightarrow> state \<Rightarrow> state" where
  "prepared q s =
     showTypingIndicator ((addMessageToChat (Some (JStr q)) True s)\<lparr>modalQuestionInput := []\<rparr>)"

subsection \<open>Concrete worlds and pages\<close>

text \<open>
  A world in which every session lookup is answered by \<open>verify\<close>, every lookup by paper
  by \<open>lookup\<close> and every question by \<open>answer\<close>, at instant \<open>t\<close>; a page with a
  given token, stored index, context and typed text; the context of a paper.
\<close>

definition world :: "fetch_result \<Rightarrow> fetch_result \<Rightarrow> fetch_result \<Rightarrow> nat \<Rightarrow> env" where
  "world verify lookup answer t =
     \<lparr>fetchSession = (\<lambda>sid. verify),
      fetchPaperSession = (\<lambda>paperId. lookup),
      fetchCsrfToken = NetworkError,
      postQuestion = (\<lambda>req. answer),
      csrfCookie = Some ''c'',
      storageAccepts = (\<lambda>v. True),
      clock = t,
      sidebarScriptLoaded = True,
      toText = (\<lambda>v. case v of JStr x \<Rightarrow> x | _ \<Rightarrow> ''?''),
      cssRead = (\<lambda>txt. None)\<rparr>"

definition contextOf :: "string \<Rightarrow> string \<Rightarrow> jsval option \<Rightarrow> paper_context" where
  "contextOf paperId paperTitle sid =
     \<lparr>ctx_id = paperId, ctx_title = paperTitle, ctx_authors = [], ctx_abstract = [],
      pdf_url = None, has_local_pdf = False, chat_session_id = sid\<rparr>"

definition page :: "string option \<Rightarrow> stored \<Rightarrow> paper_context option \<Rightarrow> string \<Rightarrow> state" where
  "page tok idx ctx text =
     \<lparr>token = tok, chatSessions = idx, currentPaperContext = ctx,
      window_currentPaperContext = ctx, modalQuestionInput = text,
      chatContainer = [], historyItemsBefore = [], historyList = Some [],
      historyItemsAfter = [], trace = []\<rparr>"

definition noPaper :: paper where
  "noPaper = \<lparr>paper_authors = None, paper_abstract = None, paper_summary = None,
              paper_pdf_url = None\<rparr>"

definition answerBody :: "string \<Rightarrow> bool \<Rightarrow> jsval" where
  "answerBody sid isNew =
     JObj [(''answer'', JStr ''A''), (''session_id'', JStr sid), (''is_new_session'', JBool isNew)]"

section \<open>Properties\<close>

subsection \<open>Basic facts\<close>

lemma emit_fields [simp]:
  "token (emit e s) = token s"
  "chatSessions (emit e s) = chatSessions s"
  "currentPaperContext (emit e s) = currentPaperContext s"
  "window_currentPaperContext (emit e s) = window_currentPaperContext s"
  "modalQuestionInput (emit e s) = modalQuestionInput s"
  "chatContainer (emit e s) = chatContainer s"
  "historyList (emit e s) = historyList s"
  "historyItemsBefore (emit e s) = historyItemsBefore s"
  "historyItemsAfter (emit e s) = historyItemsAfter s"
  "trace (emit e s) = trace s @ [e]"
  by (simp_all add: emit_def)

lemma isUserLoggedIn_emit [simp]: "isUserLoggedIn (emit e s) = isUserLoggedIn s"
  by (simp add: isUserLoggedIn_def)

lemma js_trim_blank:
  assumes "\<forall>c\<in>set xs. is_space c"
  shows "js_trim xs = []"
proof -
  from assms have h: "dropWhile is_space xs = []" by simp
  show ?thesis unfolding js_trim_def h by simp
qed

lemma ensureCsrfToken_fields:
  "ensureCsrfToken env s = (tk, s1) \<Longrightarrow>
     token s1 = token s \<and> chatSessions s1 = chatSessions s
     \<and> currentPaperContext s1 = currentPaperContext s
     \<and> window_currentPaperContext s1 = window_currentPaperContext s
     \<and> modalQuestionInput s1 = modalQuestionInput s
     \<and> chatContainer s1 = chatContainer s \<and> historyList s1 = historyList s
     \<and> historyItemsBefore s1 = historyItemsBefore s
     \<and> historyItemsAfter s1 = historyItemsAfter s"
  by (auto simp: ensureCsrfToken_def Let_def
      split: if_splits fetch_result.splits option.splits sum.splits)

lemma ensureCsrfToken_fst: "fst (ensureCsrfToken env s) = fst (ensureCsrfToken env s')"
  by (auto simp: ensureCsrfToken_def Let_def
      split: if_splits fetch_result.splits option.splits sum.splits)

lemma prepared_fields [simp]:
  "token (prepared q s) = token s"
  "chatSessions (prepared q s) = chatSessions s"
  "currentPaperContext (prepared q s) = currentPaperContext s"
  "window_currentPaperContext (prepared q s) = window_currentPaperContext s"
  "historyList (prepared q s) = historyList s"
  "historyItemsBefore (prepared q s) = historyItemsBefore s"
  "historyItemsAfter (prepared q s) = historyItemsAfter s"
  "chatContainer (prepared q s) =
     chatContainer s @ [MessageBubble (Some (JStr q)) True, TypingIndicator]"
  by (simp_all add: prepared_def showTypingIndicator_def addMessageToChat_def)

lemma isUserLoggedIn_prepared [simp]: "isUserLoggedIn (prepared q s) = isUserLoggedIn s"
  by (simp add: isUserLoggedIn_def)

lemma sentRequest_prepared:
  "ensureCsrfToken env (prepared q s) = (tk, s1) \<Longrightarrow> js_trim (modalQuestionInput s) = q \<Longrightarrow>
   requestBody s1 ctx q tk = sentRequest env s ctx"
  using ensureCsrfToken_fields [of env "prepared q s" tk s1]
    ensureCsrfToken_fst [of env "prepared q s" s]
  by (simp add: sentRequest_def requestBody_def isUserLoggedIn_def getToken_def)

lemma sendQuestion_unfold:
  "js_trim (modalQuestionInput s) = q \<Longrightarrow> q \<noteq> [] \<Longrightarrow> currentPaperContext s = Some ctx \<Longrightarrow>
   sendQuestion env s =
     (case sendQuestion_try env q ctx (prepared q s) of
        (None, s1) \<Rightarrow> (None, s1)
      | (Some e, s1) \<Rightarrow>
          (None, emit ConsoleError
             (addMessageToChat (Some (JStr ''Terjadi kesalahan jaringan. Silakan coba lagi.''))
                False (removeTypingIndicator s1))))"
  by (simp add: sendQuestion_def prepared_def)

subsection \<open>Empty input\<close>

text \<open>
  C4. A typed text that is empty or made of white space only is rejected right after
  the trim: \<^verbatim>\<open>sendQuestion\<close> returns with the whole state as it was, so no request
  was sent (the trace is unchanged) and neither the context nor the stored index moved.
\<close>

theorem blank_input_is_rejected:
  "\<forall>c\<in>set (modalQuestionInput s). is_space c \<Longrightarrow> sendQuestion env s = (None, s)"
  by (simp add: sendQuestion_def js_trim_blank)

theorem blank_input_is_rejected_witness:
  "sendQuestion (world NetworkError NetworkError NetworkError 0)
     (page (Some ''tok'') NoItem (Some (contextOf ''P1'' ''T'' None)) ''  '')
   = (None, page (Some ''tok'') NoItem (Some (contextOf ''P1'' ''T'' None)) ''  '')"
proof -
  have h: "\<forall>c\<in>set (modalQuestionInput
       (page (Some ''tok'') NoItem (Some (contextOf ''P1'' ''T'' None)) ''  '')). is_space c"
    by (simp add: page_def is_space_def)
  from blank_input_is_rejected [OF h] show ?thesis .
qed

subsection \<open>A failed exchange\<close>

lemma try_failed:
  assumes "js_trim (modalQuestionInput s) = q"
    and "failed (postQuestion env (sentRequest env s ctx))"
    and "sendQuestion_try env q ctx (prepared q s) = (r, s')"
  shows "token s' = token s \<and> chatSessions s' = chatSessions s
     \<and> currentPaperContext s' = currentPaperContext s
     \<and> window_currentPaperContext s' = window_currentPaperContext s
     \<and> historyList s' = historyList s
     \<and> ((r = Some FetchFailed \<and> postQuestion env (sentRequest env s ctx) = NetworkError
          \<and> chatContainer s' =
              chatContainer s @ [MessageBubble (Some (JStr q)) True, TypingIndicator])
        \<or> (r = None \<and> postQuestion env (sentRequest env s ctx) \<noteq> NetworkError
          \<and> chatContainer s' =
              remove1 TypingIndicator
                (chatContainer s @ [MessageBubble (Some (JStr q)) True, TypingIndicator])
              @ [MessageBubble
                   (Some (JStr ''Maaf, terjadi kesalahan dalam memproses pertanyaan Anda.''))
                   False]))"
proof -
  obtain tk s1 where e: "ensureCsrfToken env (prepared q s) = (tk, s1)"
    by (cases "ensureCsrfToken env (prepared q s)")
  note rq = sentRequest_prepared [OF e assms(1)]
  note f = ensureCsrfToken_fields [OF e]
  show ?thesis using assms(2,3) f
    by (auto simp: sendQuestion_try_def e rq failed_def Let_def removeTypingIndicator_def
        addMessageToChat_def split: fetch_result.splits if_splits)
qed

text \<open>
  C2. When a question is sent (the trimmed text is not empty and there is a context)
  and the exchange fails (the request rejects, or the status is not a success), the last
  node of the chat container is a failure message of the assistant, after the user's own
  bubble, nothing is thrown, and the context, the \<^verbatim>\<open>window\<close> context, the token,
  the stored \<^verbatim>\<open>chatSessions\<close> item and the sidebar are what they were.
\<close>

theorem failed_exchange_keeps_session_state:
  assumes "js_trim (modalQuestionInput s) \<noteq> []"
    and "currentPaperContext s = Some ctx"
    and "failed (postQuestion env (sentRequest env s ctx))"
  shows "fst (sendQuestion env s) = None
     \<and> currentPaperContext (snd (sendQuestion env s)) = currentPaperContext s
     \<and> chatSessions (snd (sendQuestion env s)) = chatSessions s
     \<and> window_currentPaperContext (snd (sendQuestion env s)) = window_currentPaperContext s
     \<and> token (snd (sendQuestion env s)) = token s
     \<and> historyList (snd (sendQuestion env s)) = historyList s
     \<and> MessageBubble (Some (JStr (js_trim (modalQuestionInput s)))) True
         \<in> set (chatContainer (snd (sendQuestion env s)))
     \<and> last (chatContainer (snd (sendQuestion env s))) =
         MessageBubble
           (Some (JStr (if postQuestion env (sentRequest env s ctx) = NetworkError
                        then ''Terjadi kesalahan jaringan. Silakan coba lagi.''
                        else ''Maaf, terjadi kesalahan dalam memproses pertanyaan Anda.'')))
           False"
proof -
  define q where "q = js_trim (modalQuestionInput s)"
  obtain r s' where t: "sendQuestion_try env q ctx (prepared q s) = (r, s')"
    by (cases "sendQuestion_try env q ctx (prepared q s)")
  have u: "sendQuestion env s =
     (case (r, s') of
        (None, s1) \<Rightarrow> (None, s1)
      | (Some e, s1) \<Rightarrow>
          (None, emit ConsoleError
             (addMessageToChat (Some (JStr ''Terjadi kesalahan jaringan. Silakan coba lagi.''))
                False (removeTypingIndicator s1))))"
    using sendQuestion_unfold [of s q ctx env] assms(1,2) t by (simp add: q_def)
  from try_failed [OF _ assms(3) t] have f:
    "token s' = token s \<and> chatSessions s' = chatSessions s
     \<and> currentPaperContext s' = currentPaperContext s
     \<and> window_currentPaperContext s' = window_currentPaperContext s
     \<and> historyList s' = historyList s
     \<and> ((r = Some FetchFailed \<and> postQuestion env (sentRequest env s ctx) = NetworkError
          \<and> chatContainer s' =
              chatContainer s @ [MessageBubble (Some (JStr q)) True, TypingIndicator])
        \<or> (r = None \<and> postQuestion env (sentRequest env s ctx) \<noteq> NetworkError
          \<and> chatContainer s' =
              remove1 TypingIndicator
                (chatContainer s @ [MessageBubble (Some (JStr q)) True, TypingIndicator])
              @ [MessageBubble
                   (Some (JStr ''Maaf, terjadi kesalahan dalam memproses pertanyaan Anda.''))
                   False]))"
    by (simp add: q_def)
  have m: "MessageBubble (Some (JStr q)) True
     \<in> set (remove1 TypingIndicator
              (chatContainer s @ [MessageBubble (Some (JStr q)) True, TypingIndicator]))"
    by simp
  from f show ?thesis
  proof (elim conjE disjE)
    assume "r = Some FetchFailed"
      and "postQuestion env (sentRequest env s ctx) = NetworkError"
      and "chatContainer s' =
             chatContainer s @ [MessageBubble (Some (JStr q)) True, TypingIndicator]"
      and "token s' = token s" and "chatSessions s' = chatSessions s"
      and "currentPaperContext s' = currentPaperContext s"
      and "window_currentPaperContext s' = window_currentPaperContext s"
      and "historyList s' = historyList s"
    then show ?thesis
      using m by (simp add: u q_def [symmetric] addMessageToChat_def removeTypingIndicator_def)
  next
    assume "r = None"
      and "postQuestion env (sentRequest env s ctx) \<noteq> NetworkError"
      and "chatContainer s' =
             remove1 TypingIndicator
               (chatContainer s @ [MessageBubble (Some (JStr q)) True, TypingIndicator])
             @ [MessageBubble
                  (Some (JStr ''Maaf, terjadi kesalahan dalam memproses pertanyaan Anda.''))
                  False]"
      and "token s' = token s" and "chatSessions s' = chatSessions s"
      and "currentPaperContext s' = currentPaperContext s"
      and "window_currentPaperContext s' = window_currentPaperContext s"
      and "historyList s' = historyList s"
    then show ?thesis
      using m by (simp add: u q_def [symmetric])
  qed
qed

theorem failed_exchange_keeps_session_state_witness:
  "js_trim (modalQuestionInput (page None NoItem (Some (contextOf ''P1'' ''T'' None)) ''hi'')) \<noteq> []
   \<and> failed (postQuestion (world NetworkError NetworkError (Response 500 None) 7)
        (sentRequest (world NetworkError NetworkError (Response 500 None) 7)
           (page None NoItem (Some (contextOf ''P1'' ''T'' None)) ''hi'') (contextOf ''P1'' ''T'' None)))
   \<and> chatSessions (snd (sendQuestion (world NetworkError NetworkError (Response 500 None) 7)
        (page None NoItem (Some (contextOf ''P1'' ''T'' None)) ''hi''))) = NoItem
   \<and> currentPaperContext (snd (sendQuestion (world NetworkError NetworkError (Response 500 None) 7)
        (page None NoItem (Some (contextOf ''P1'' ''T'' None)) ''hi''))) = Some (contextOf ''P1'' ''T'' None)
   \<and> last (chatContainer (snd (sendQuestion (world NetworkError NetworkError (Response 500 None) 7)
        (page None NoItem (Some (contextOf ''P1'' ''T'' None)) ''hi'')))) =
       MessageBubble (Some (JStr ''Maaf, terjadi kesalahan dalam memproses pertanyaan Anda.'')) False"
proof -
  let ?s = "page None NoItem (Some (contextOf ''P1'' ''T'' None)) ''hi''"
  let ?env = "world NetworkError NetworkError (Response 500 None) 7"
  have a: "js_trim (modalQuestionInput ?s) \<noteq> []"
    by (simp add: page_def js_trim_def is_space_def)
  have b: "currentPaperContext ?s = Some (contextOf ''P1'' ''T'' None)"
    by (simp add: page_def)
  have c: "failed (postQuestion ?env (sentRequest ?env ?s (contextOf ''P1'' ''T'' None)))"
    by (simp add: world_def failed_def ok_def)
  have d: "postQuestion ?env (sentRequest ?env ?s (contextOf ''P1'' ''T'' None)) \<noteq> NetworkError"
    by (simp add: world_def)
  have e: "chatSessions ?s = NoItem" by (simp add: page_def)
  from failed_exchange_keeps_session_state [OF a b c] a c d b e show ?thesis by simp
qed

subsection \<open>Session resolution\<close>

lemma readSavedSessions_entries:
  "indexEntries (chatSessions s) = Some kvs \<Longrightarrow>
   readSavedSessions s = (Inr (JObj kvs), emit GetItemChatSessions s)"
  by (auto simp: indexEntries_def readSavedSessions_def split: stored.splits jsval.splits)

lemma readSavedSessions_readable:
  "readable (chatSessions s) \<Longrightarrow>
   readSavedSessions s = (Inr (indexValue (chatSessions s)), emit GetItemChatSessions s)
   \<and> indexValue (chatSessions s) \<noteq> JNull"
  by (auto simp: readable_def indexValue_def readSavedSessions_def split: stored.splits)

lemma lookup_found:
  assumes "paperLookup env p = Some (sid', data)"
    and "storageAccepts env (JObj (AList.update p (serverRecord p sid' data) kvs))"
  shows "lookupPaperSession env p (JObj kvs) s =
     (Some sid', s\<lparr>chatSessions := Parsed (JObj (AList.update p (serverRecord p sid' data) kvs)),
                   trace := trace s @ [FetchPaperSession p,
                      SetItemChatSessions (JObj (AList.update p (serverRecord p sid' data) kvs)) True]\<rparr>)"
  using assms
  by (auto simp: paperLookup_def lookupPaperSession_def get_prop_def writeSavedSessions_def emit_def
      split: fetch_result.splits if_splits option.splits)

lemma lookup_rejected:
  assumes "paperLookup env p = Some (sid', data)"
    and "\<not> storageAccepts env (JObj (AList.update p (serverRecord p sid' data) kvs))"
  shows "lookupPaperSession env p (JObj kvs) s =
     (None, s\<lparr>trace := trace s @ [FetchPaperSession p,
                      SetItemChatSessions (JObj (AList.update p (serverRecord p sid' data) kvs)) False,
                      ConsoleError]\<rparr>)"
  using assms
  by (auto simp: paperLookup_def lookupPaperSession_def get_prop_def writeSavedSessions_def emit_def
      split: fetch_result.splits if_splits option.splits)

lemma lookup_none:
  assumes "paperLookup env p = None"
  shows "lookupPaperSession env p saved s = (None, s\<lparr>trace := trace s @ [FetchPaperSession p]\<rparr>)
       \<or> lookupPaperSession env p saved s = (None, s\<lparr>trace := trace s @ [FetchPaperSession p, ConsoleError]\<rparr>)"
  using assms
  by (auto simp: paperLookup_def lookupPaperSession_def get_prop_def emit_def
      split: fetch_result.splits if_splits option.splits)

lemma verify_ok:
  assumes "storedSessionId entry = Some sid" "fetchSession env sid = Response st b" "ok st"
  shows "verifySavedSession env p saved entry s = ((Some sid, saved), s\<lparr>trace := trace s @ [FetchSession sid]\<rparr>)"
  using assms by (simp add: verifySavedSession_def emit_def)

lemma verify_stale:
  assumes "storedSessionId entry = Some sid" "fetchSession env sid = Response st b" "\<not> ok st"
    "storageAccepts env (delete_prop saved p)"
  shows "verifySavedSession env p saved entry s =
    ((None, delete_prop saved p), s\<lparr>chatSessions := Parsed (delete_prop saved p),
        trace := trace s @ [FetchSession sid, SetItemChatSessions (delete_prop saved p) True]\<rparr>)"
  using assms by (simp add: verifySavedSession_def writeSavedSessions_def emit_def)

lemma verify_stale_rejected:
  assumes "storedSessionId entry = Some sid" "fetchSession env sid = Response st b" "\<not> ok st"
    "\<not> storageAccepts env (delete_prop saved p)"
  shows "verifySavedSession env p saved entry s =
    ((None, delete_prop saved p), s\<lparr>trace := trace s @ [FetchSession sid, SetItemChatSessions (delete_prop saved p) False, ConsoleError]\<rparr>)"
  using assms by (simp add: verifySavedSession_def writeSavedSessions_def emit_def)

lemma verify_network_error:
  assumes "storedSessionId entry = Some sid" "fetchSession env sid = NetworkError"
  shows "verifySavedSession env p saved entry s =
    ((None, saved), s\<lparr>trace := trace s @ [FetchSession sid, ConsoleError]\<rparr>)"
  using assms by (simp add: verifySavedSession_def emit_def)

lemma verify_no_entry:
  assumes "storedSessionId entry = None"
  shows "verifySavedSession env p saved entry s = ((None, saved), s)"
  using assms by (simp add: verifySavedSession_def)

lemma check_unfold:
  assumes "isUserLoggedIn s" "indexEntries (chatSessions s) = Some kvs"
  shows "checkExistingChatSession env p s =
     (case verifySavedSession env p (JObj kvs) (map_of kvs p) (emit GetItemChatSessions s) of
        ((Some sessionId, _), s2) \<Rightarrow> (Inr (Some sessionId), s2)
      | ((None, savedSessions'), s2) \<Rightarrow>
           (case lookupPaperSession env p savedSessions' s2 of (r, s3) \<Rightarrow> (Inr r, s3)))"
  using assms by (simp add: checkExistingChatSession_def readSavedSessions_entries get_prop_def)


lemma delete_prop_obj: "delete_prop (JObj kvs) p = JObj (AList.delete p kvs)" by simp

lemma check_never_throws:
  assumes "isUserLoggedIn s" "indexEntries (chatSessions s) = Some kvs"
  shows "\<exists>r. fst (checkExistingChatSession env p s) = Inr r"
  by (simp add: check_unfold [OF assms] split: prod.splits option.splits)

lemma verify_trace:
  "\<exists>evs. trace (snd (verifySavedSession env p saved entry s)) = trace s @ evs"
  by (auto simp: verifySavedSession_def writeSavedSessions_def emit_def
      split: option.splits fetch_result.splits prod.splits if_splits)

lemma verify_trace_cached:
  "storedSessionId entry = Some sid \<Longrightarrow>
   \<exists>evs. trace (snd (verifySavedSession env p saved entry s)) = trace s @ FetchSession sid # evs"
  by (auto simp: verifySavedSession_def writeSavedSessions_def emit_def
      split: option.splits fetch_result.splits prod.splits if_splits)

lemma lookup_trace:
  "\<exists>evs. trace (snd (lookupPaperSession env p saved s)) = trace s @ FetchPaperSession p # evs"
  by (auto simp: lookupPaperSession_def writeSavedSessions_def emit_def
      split: option.splits fetch_result.splits prod.splits if_splits sum.splits)

lemma check_trace:
  assumes "isUserLoggedIn s" "indexEntries (chatSessions s) = Some kvs"
  shows "\<exists>evs. trace (snd (checkExistingChatSession env p s)) = trace s @ GetItemChatSessions # evs"
proof -
  obtain r saved s2 where v: "verifySavedSession env p (JObj kvs) (map_of kvs p) (emit GetItemChatSessions s) = ((r, saved), s2)"
    by (metis surj_pair)
  from verify_trace [of env p "JObj kvs" "map_of kvs p" "emit GetItemChatSessions s"] v
  obtain evs where e: "trace s2 = trace s @ GetItemChatSessions # evs" by auto
  show ?thesis
  proof (cases r)
    case (Some sid)
    then show ?thesis using e by (simp add: check_unfold [OF assms] v)
  next
    case None
    obtain r3 s3 where l: "lookupPaperSession env p saved s2 = (r3, s3)" by (metis surj_pair)
    from lookup_trace [of env p saved s2] l obtain evs' where "trace s3 = trace s2 @ FetchPaperSession p # evs'" by auto
    then show ?thesis using e None by (simp add: check_unfold [OF assms] v l)
  qed
qed

lemma check_trace_cached:
  assumes "isUserLoggedIn s" "indexEntries (chatSessions s) = Some kvs" "storedSessionId (map_of kvs p) = Some sid"
  shows "\<exists>evs. trace (snd (checkExistingChatSession env p s)) = trace s @ GetItemChatSessions # FetchSession sid # evs"
proof -
  obtain r saved s2 where v: "verifySavedSession env p (JObj kvs) (map_of kvs p) (emit GetItemChatSessions s) = ((r, saved), s2)"
    by (metis surj_pair)
  from verify_trace_cached [OF assms(3), of env p "JObj kvs" "emit GetItemChatSessions s"] v
  obtain evs where e: "trace s2 = trace s @ GetItemChatSessions # FetchSession sid # evs" by auto
  show ?thesis
  proof (cases r)
    case (Some sid)
    then show ?thesis using e by (simp add: check_unfold [OF assms(1,2)] v)
  next
    case None
    obtain r3 s3 where l: "lookupPaperSession env p saved s2 = (r3, s3)" by (metis surj_pair)
    from lookup_trace [of env p saved s2] l obtain evs' where "trace s3 = trace s2 @ FetchPaperSession p # evs'" by auto
    then show ?thesis using e None by (simp add: check_unfold [OF assms(1,2)] v l)
  qed
qed

lemma check_verified:
  assumes "isUserLoggedIn s" "indexEntries (chatSessions s) = Some kvs"
    "storedSessionId (map_of kvs p) = Some sid" "fetchSession env sid = Response st b" "ok st"
  shows "checkExistingChatSession env p s =
     (Inr (Some sid), s\<lparr>trace := trace s @ [GetItemChatSessions, FetchSession sid]\<rparr>)"
  by (simp add: check_unfold [OF assms(1,2)] verify_ok [OF assms(3,4,5)] emit_def)

lemma check_stale_found:
  assumes "isUserLoggedIn s" "indexEntries (chatSessions s) = Some kvs"
    "storedSessionId (map_of kvs p) = Some sid" "fetchSession env sid = Response st b" "\<not> ok st"
    "paperLookup env p = Some (sid', data)" "\<forall>v. storageAccepts env v"
  shows "checkExistingChatSession env p s =
     (Inr (Some sid'),
      s\<lparr>chatSessions := Parsed (JObj (AList.update p (serverRecord p sid' data) (AList.delete p kvs))),
        trace := trace s @ [GetItemChatSessions, FetchSession sid,
           SetItemChatSessions (JObj (AList.delete p kvs)) True,
           FetchPaperSession p,
           SetItemChatSessions (JObj (AList.update p (serverRecord p sid' data) (AList.delete p kvs))) True]\<rparr>)"
proof -
  have a: "storageAccepts env (delete_prop (JObj kvs) p)" using assms(7) by blast
  have b: "storageAccepts env (JObj (AList.update p (serverRecord p sid' data) (AList.delete p kvs)))" using assms(7) by blast
  show ?thesis
    by (simp add: check_unfold [OF assms(1,2)] verify_stale [OF assms(3,4,5) a] lookup_found [OF assms(6) b] emit_def)
qed

lemma check_stale_none:
  assumes "isUserLoggedIn s" "indexEntries (chatSessions s) = Some kvs"
    "storedSessionId (map_of kvs p) = Some sid" "fetchSession env sid = Response st b" "\<not> ok st"
    "paperLookup env p = None" "\<forall>v. storageAccepts env v"
  shows "fst (checkExistingChatSession env p s) = Inr None
     \<and> chatSessions (snd (checkExistingChatSession env p s)) = Parsed (JObj (AList.delete p kvs))"
proof -
  have a: "storageAccepts env (delete_prop (JObj kvs) p)" using assms(7) by blast
  show ?thesis
    using lookup_none [OF assms(6), of "JObj (AList.delete p kvs)"
        "s\<lparr>chatSessions := Parsed (JObj (AList.delete p kvs)),
           trace := trace s @ [GetItemChatSessions, FetchSession sid, SetItemChatSessions (JObj (AList.delete p kvs)) True]\<rparr>"]
    by (auto simp add: check_unfold [OF assms(1,2)] verify_stale [OF assms(3,4,5) a] emit_def)
qed

lemma check_unverified:
  assumes "isUserLoggedIn s" "indexEntries (chatSessions s) = Some kvs"
    "storedSessionId (map_of kvs p) = None
     \<or> (storedSessionId (map_of kvs p) = Some sid \<and> fetchSession env sid = NetworkError)"
  shows "checkExistingChatSession env p s =
     (case lookupPaperSession env p (JObj kvs)
             (if storedSessionId (map_of kvs p) = None then emit GetItemChatSessions s
              else s\<lparr>trace := trace s @ [GetItemChatSessions, FetchSession sid, ConsoleError]\<rparr>) of
        (r, s3) \<Rightarrow> (Inr r, s3))"
  using assms(3)
  by (auto simp add: check_unfold [OF assms(1,2)] verify_no_entry verify_network_error emit_def)

lemma check_unverified_found:
  assumes "isUserLoggedIn s" "indexEntries (chatSessions s) = Some kvs"
    "storedSessionId (map_of kvs p) = None
     \<or> (storedSessionId (map_of kvs p) = Some sid \<and> fetchSession env sid = NetworkError)"
    "paperLookup env p = Some (sid', data)" "\<forall>v. storageAccepts env v"
  shows "fst (checkExistingChatSession env p s) = Inr (Some sid')
     \<and> chatSessions (snd (checkExistingChatSession env p s)) =
         Parsed (JObj (AList.update p (serverRecord p sid' data) kvs))"
proof -
  have b: "storageAccepts env (JObj (AList.update p (serverRecord p sid' data) kvs))" using assms(5) by blast
  show ?thesis
    by (simp add: check_unverified [OF assms(1,2,3)] lookup_found [OF assms(4) b])
qed

lemma check_unverified_none:
  assumes "isUserLoggedIn s" "indexEntries (chatSessions s) = Some kvs"
    "storedSessionId (map_of kvs p) = None
     \<or> (storedSessionId (map_of kvs p) = Some sid \<and> fetchSession env sid = NetworkError)"
    "paperLookup env p = None"
  shows "fst (checkExistingChatSession env p s) = Inr None
     \<and> chatSessions (snd (checkExistingChatSession env p s)) = chatSessions s"
  using lookup_none [OF assms(4), of "JObj kvs" "if storedSessionId (map_of kvs p) = None then emit GetItemChatSessions s
              else s\<lparr>trace := trace s @ [GetItemChatSessions, FetchSession sid, ConsoleError]\<rparr>"]
  by (auto simp add: check_unverified [OF assms(1,2,3)])


lemma check_stale_trace:
  assumes "isUserLoggedIn s" "indexEntries (chatSessions s) = Some kvs"
    "storedSessionId (map_of kvs p) = Some sid" "fetchSession env sid = Response st b" "\<not> ok st"
    "storageAccepts env (JObj (AList.delete p kvs))"
  shows "\<exists>evs. trace (snd (checkExistingChatSession env p s)) =
     trace s @ [GetItemChatSessions, FetchSession sid,
                SetItemChatSessions (JObj (AList.delete p kvs)) True, FetchPaperSession p] @ evs"
proof -
  have a: "storageAccepts env (delete_prop (JObj kvs) p)" using assms(6) by simp
  let ?s2 = "s\<lparr>chatSessions := Parsed (JObj (AList.delete p kvs)),
           trace := trace s @ [GetItemChatSessions, FetchSession sid, SetItemChatSessions (JObj (AList.delete p kvs)) True]\<rparr>"
  obtain r3 s3 where l: "lookupPaperSession env p (JObj (AList.delete p kvs)) ?s2 = (r3, s3)" by (metis surj_pair)
  from lookup_trace [of env p "JObj (AList.delete p kvs)" ?s2] l
  obtain evs where "trace s3 = trace ?s2 @ FetchPaperSession p # evs" by auto
  then show ?thesis
    by (simp add: check_unfold [OF assms(1,2)] verify_stale [OF assms(3,4,5) a] emit_def l)
qed

lemma check_network_error_trace:
  assumes "isUserLoggedIn s" "indexEntries (chatSessions s) = Some kvs"
    "storedSessionId (map_of kvs p) = Some sid" "fetchSession env sid = NetworkError"
  shows "\<exists>evs. trace (snd (checkExistingChatSession env p s)) =
     trace s @ [GetItemChatSessions, FetchSession sid, ConsoleError, FetchPaperSession p] @ evs"
proof -
  let ?s2 = "s\<lparr>trace := trace s @ [GetItemChatSessions, FetchSession sid, ConsoleError]\<rparr>"
  obtain r3 s3 where l: "lookupPaperSession env p (JObj kvs) ?s2 = (r3, s3)" by (metis surj_pair)
  from lookup_trace [of env p "JObj kvs" ?s2] l
  obtain evs where "trace s3 = trace ?s2 @ FetchPaperSession p # evs" by auto
  then show ?thesis
    using assms(3,4) by (simp add: check_unverified [OF assms(1,2), of p sid] l)
qed

lemma serverRecord_reads_back:
  assumes "truthy sid'"
  shows "storedSessionId
           (property (JObj (AList.update p
              (JObj [(''sessionId'', sid'),
                     (''title'', or_else (property data ''paper_title'') (JStr ''Unknown Paper'')),
                     (''paperId'', JStr p),
                     (''persistentSession'', JBool True)]) l)) p) = Some sid'"
  using assms by (simp add: AList.update_conv' storedSessionId_def truthy_opt_def)

lemma paperLookup_truthy: "paperLookup env p = Some (sid', data) \<Longrightarrow> truthy sid'"
  by (auto simp: paperLookup_def split: fetch_result.splits option.splits if_splits)

text \<open>
  C1, as the code has it. For a logged-in user whose stored index is missing or reads as
  an object, and a storage that accepts the writes, \<^verbatim>\<open>checkExistingChatSession\<close>
  never throws and proceeds in this order: it reads the local index first; when the
  index gives a session id for the paper it asks the server for that session next, and
  returns the id when the answer is a success; when the answer is not a success it
  writes the index without the entry, then looks the paper up, and a session found there
  is written into the index, in a record that carries its id, and returned (the trace
  shows the eviction before the new entry); a network failure of the verification
  leaves the index alone and goes on to the lookup by paper; whenever the lookup by
  paper finds nothing (no session, a failure status, a network failure) the result is
  \<^verbatim>\<open>null\<close>. Read back from the index, the record written gives the session id
  found.
\<close>

theorem resolution_order:
  assumes "isUserLoggedIn s"
    and "indexEntries (chatSessions s) = Some kvs"
    and "\<forall>v. storageAccepts env v"
  shows "(\<exists>r. fst (checkExistingChatSession env p s) = Inr r)
    \<and> (\<exists>evs. trace (snd (checkExistingChatSession env p s)) =
          trace s @ GetItemChatSessions # evs)
    \<and> (storedSessionId (map_of kvs p) = Some sid \<longrightarrow>
         (\<exists>evs. trace (snd (checkExistingChatSession env p s)) =
            trace s @ GetItemChatSessions # FetchSession sid # evs))
    \<and> (storedSessionId (map_of kvs p) = Some sid \<and> fetchSession env sid = Response st b \<and> ok st
         \<longrightarrow> checkExistingChatSession env p s =
               (Inr (Some sid), s\<lparr>trace := trace s @ [GetItemChatSessions, FetchSession sid]\<rparr>))
    \<and> (storedSessionId (map_of kvs p) = Some sid \<and> fetchSession env sid = Response st b
         \<and> \<not> ok st \<and> paperLookup env p = Some (sid', data)
         \<longrightarrow> checkExistingChatSession env p s =
               (Inr (Some sid'),
                s\<lparr>chatSessions := Parsed (JObj
                     (AList.update p
                        (JObj [(''sessionId'', sid'),
                               (''title'', or_else (property data ''paper_title'')
                                             (JStr ''Unknown Paper'')),
                               (''paperId'', JStr p),
                               (''persistentSession'', JBool True)])
                        (AList.delete p kvs))),
                  trace := trace s @
                    [GetItemChatSessions, FetchSession sid,
                     SetItemChatSessions (JObj (AList.delete p kvs)) True,
                     FetchPaperSession p,
                     SetItemChatSessions (JObj
                       (AList.update p
                          (JObj [(''sessionId'', sid'),
                                 (''title'', or_else (property data ''paper_title'')
                                               (JStr ''Unknown Paper'')),
                                 (''paperId'', JStr p),
                                 (''persistentSession'', JBool True)])
                          (AList.delete p kvs))) True]\<rparr>))
    \<and> (storedSessionId (map_of kvs p) = Some sid \<and> fetchSession env sid = Response st b
         \<and> \<not> ok st \<and> paperLookup env p = None
         \<longrightarrow> fst (checkExistingChatSession env p s) = Inr None
             \<and> chatSessions (snd (checkExistingChatSession env p s)) =
                 Parsed (JObj (AList.delete p kvs)))
    \<and> ((storedSessionId (map_of kvs p) = None
          \<or> (storedSessionId (map_of kvs p) = Some sid \<and> fetchSession env sid = NetworkError))
         \<and> paperLookup env p = Some (sid', data)
         \<longrightarrow> fst (checkExistingChatSession env p s) = Inr (Some sid')
             \<and> chatSessions (snd (checkExistingChatSession env p s)) =
                 Parsed (JObj
                   (AList.update p
                      (JObj [(''sessionId'', sid'),
                             (''title'', or_else (property data ''paper_title'')
                                           (JStr ''Unknown Paper'')),
                             (''paperId'', JStr p),
                             (''persistentSession'', JBool True)])
                      kvs)))
    \<and> ((storedSessionId (map_of kvs p) = None
          \<or> (storedSessionId (map_of kvs p) = Some sid \<and> fetchSession env sid = NetworkError))
         \<and> paperLookup env p = None
         \<longrightarrow> fst (checkExistingChatSession env p s) = Inr None
             \<and> chatSessions (snd (checkExistingChatSession env p s)) = chatSessions s)
    \<and> (paperLookup env p = Some (sid', data) \<longrightarrow>
         storedSessionId
           (property (JObj (AList.update p
              (JObj [(''sessionId'', sid'),
                     (''title'', or_else (property data ''paper_title'')
                                   (JStr ''Unknown Paper'')),
                     (''paperId'', JStr p),
                     (''persistentSession'', JBool True)])
              (AList.delete p kvs))) p) = Some sid'
         \<and> storedSessionId
           (property (JObj (AList.update p
              (JObj [(''sessionId'', sid'),
                     (''title'', or_else (property data ''paper_title'')
                                   (JStr ''Unknown Paper'')),
                     (''paperId'', JStr p),
                     (''persistentSession'', JBool True)])
              kvs)) p) = Some sid')"
proof -
  have r: "serverRecord p sid' data =
      JObj [(''sessionId'', sid'),
            (''title'', or_else (property data ''paper_title'') (JStr ''Unknown Paper'')),
            (''paperId'', JStr p),
            (''persistentSession'', JBool True)]"
    by (simp add: serverRecord_def)
  have rb: "storedSessionId
           (property (JObj (AList.update p
              (JObj [(''sessionId'', sid'),
                     (''title'', or_else (property data ''paper_title'')
                                   (JStr ''Unknown Paper'')),
                     (''paperId'', JStr p),
                     (''persistentSession'', JBool True)]) l)) p) = Some sid'"
    if "paperLookup env p = Some (sid', data)" for l
    by (rule serverRecord_reads_back [OF paperLookup_truthy [OF that]])
  show ?thesis
    using check_never_throws [OF assms(1,2), of env p]
      check_trace [OF assms(1,2), of env p]
      check_trace_cached [OF assms(1,2), of p sid env]
      check_verified [OF assms(1,2), of p sid env st b]
      check_stale_found [OF assms(1,2) _ _ _ _ assms(3), of p sid st b sid' data]
      check_stale_none [OF assms(1,2) _ _ _ _ assms(3), of p sid st b]
      check_unverified_found [OF assms(1,2) _ _ assms(3), of p sid sid' data]
      check_unverified_none [OF assms(1,2), of p sid env]
      rb [of kvs] rb [of "AList.delete p kvs"]
    unfolding r by blast
qed

theorem resolution_order_witness:
  "checkExistingChatSession
     (world (Response 404 None) (Response 200 (Some (JObj [(''session_id'', JStr ''S4'')])))
        NetworkError 0)
     ''P3''
     (page (Some ''tok'') (Parsed (JObj [(''P3'', JObj [(''sessionId'', JStr ''S3'')])])) None [])
   = (Inr (Some (JStr ''S4'')),
      (page (Some ''tok'') (Parsed (JObj [(''P3'', JObj [(''sessionId'', JStr ''S3'')])])) None [])
        \<lparr>chatSessions := Parsed (JObj
           [(''P3'', JObj [(''sessionId'', JStr ''S4''), (''title'', JStr ''Unknown Paper''),
                          (''paperId'', JStr ''P3''), (''persistentSession'', JBool True)])]),
         trace :=
           [GetItemChatSessions, FetchSession (JStr ''S3''),
            SetItemChatSessions (JObj []) True,
            FetchPaperSession ''P3'',
            SetItemChatSessions (JObj
              [(''P3'', JObj [(''sessionId'', JStr ''S4''), (''title'', JStr ''Unknown Paper''),
                             (''paperId'', JStr ''P3''), (''persistentSession'', JBool True)])])
              True]\<rparr>)"
proof -
  let ?env = "world (Response 404 None) (Response 200 (Some (JObj [(''session_id'', JStr ''S4'')])))
        NetworkError 0"
  let ?s = "page (Some ''tok'') (Parsed (JObj [(''P3'', JObj [(''sessionId'', JStr ''S3'')])])) None []"
  have a: "isUserLoggedIn ?s" by (simp add: isUserLoggedIn_def page_def)
  have b: "indexEntries (chatSessions ?s) = Some [(''P3'', JObj [(''sessionId'', JStr ''S3'')])]"
    by (simp add: indexEntries_def page_def)
  have c: "\<forall>v. storageAccepts ?env v" by (simp add: world_def)
  have d: "storedSessionId (map_of [(''P3'', JObj [(''sessionId'', JStr ''S3'')])] ''P3'') = Some (JStr ''S3'')"
    by (simp add: storedSessionId_def truthy_opt_def)
  have e: "fetchSession ?env (JStr ''S3'') = Response 404 None" by (simp add: world_def)
  have f: "\<not> ok 404" by (simp add: ok_def)
  have g: "paperLookup ?env ''P3'' = Some (JStr ''S4'', JObj [(''session_id'', JStr ''S4'')])"
    by (simp add: paperLookup_def world_def ok_def)
  have t: "trace ?s = []" by (simp add: page_def)
  from resolution_order [OF a b c, of "''P3''" "JStr ''S3''" 404 None "JStr ''S4''" "JObj [(''session_id'', JStr ''S4'')]"]
    d e f g
  show ?thesis by (simp add: t or_else_def)
qed

text \<open>
  The claim fails outside these conditions. With a stored item that is not JSON,
  resolution throws where the claim has it return none: nothing cached, no request
  answered. With a storage that refuses every write, the stale entry \<open>S3\<close> stays in
  the index and the session \<open>S4\<close> the server finds for the paper is neither cached
  nor returned.
\<close>

theorem resolution_outside_its_conditions:
  "fst (checkExistingChatSession (world NetworkError (Response 404 None) NetworkError 0) ''P2''
         (page (Some ''tok'') Unparseable None [])) = Inl SyntaxError
   \<and> fst (checkExistingChatSession
         ((world (Response 404 None)
             (Response 200 (Some (JObj [(''session_id'', JStr ''S4'')]))) NetworkError 0)
            \<lparr>storageAccepts := (\<lambda>v. False)\<rparr>)
         ''P3''
         (page (Some ''tok'') (Parsed (JObj [(''P3'', JObj [(''sessionId'', JStr ''S3'')])]))
            None [])) = Inr None
   \<and> chatSessions (snd (checkExistingChatSession
         ((world (Response 404 None)
             (Response 200 (Some (JObj [(''session_id'', JStr ''S4'')]))) NetworkError 0)
            \<lparr>storageAccepts := (\<lambda>v. False)\<rparr>)
         ''P3''
         (page (Some ''tok'') (Parsed (JObj [(''P3'', JObj [(''sessionId'', JStr ''S3'')])]))
            None [])))
       = Parsed (JObj [(''P3'', JObj [(''sessionId'', JStr ''S3'')])])"
  by (simp add: checkExistingChatSession_def verifySavedSession_def lookupPaperSession_def
      readSavedSessions_def writeSavedSessions_def storedSessionId_def serverRecord_def
      truthy_opt_def get_prop_def isUserLoggedIn_def page_def world_def ok_def emit_def
      or_else_def)



subsection \<open>A successful exchange\<close>

lemma updateChatSessionInSidebar_fields [simp]:
  "token (snd (updateChatSessionInSidebar env sid q s)) = token s"
  "chatSessions (snd (updateChatSessionInSidebar env sid q s)) = chatSessions s"
  "currentPaperContext (snd (updateChatSessionInSidebar env sid q s)) = currentPaperContext s"
  "window_currentPaperContext (snd (updateChatSessionInSidebar env sid q s)) =
     window_currentPaperContext s"
  "chatContainer (snd (updateChatSessionInSidebar env sid q s)) = chatContainer s"
  "modalQuestionInput (snd (updateChatSessionInSidebar env sid q s)) = modalQuestionInput s"
  "trace (snd (updateChatSessionInSidebar env sid q s)) = trace s"
  by (simp_all add: updateChatSessionInSidebar_def split: option.splits prod.splits bool.splits)

lemma updateSidebar_fields [simp]:
  "token (snd (updateSidebar env data sid q t s)) = token s"
  "chatSessions (snd (updateSidebar env data sid q t s)) = chatSessions s"
  "currentPaperContext (snd (updateSidebar env data sid q t s)) = currentPaperContext s"
  "window_currentPaperContext (snd (updateSidebar env data sid q t s)) =
     window_currentPaperContext s"
  "chatContainer (snd (updateSidebar env data sid q t s)) = chatContainer s"
  "modalQuestionInput (snd (updateSidebar env data sid q t s)) = modalQuestionInput s"
  "trace (snd (updateSidebar env data sid q t s)) = trace s"
  by (simp_all add: updateSidebar_def addChatSessionToSidebar_def split: option.splits)

lemma updateChatSessionInSidebar_cong:
  assumes "historyList s' = historyList s" "historyItemsBefore s' = historyItemsBefore s"
    "historyItemsAfter s' = historyItemsAfter s"
  shows "fst (updateChatSessionInSidebar env sid q s') = fst (updateChatSessionInSidebar env sid q s)
    \<and> historyList (snd (updateChatSessionInSidebar env sid q s')) =
        historyList (snd (updateChatSessionInSidebar env sid q s))"
  using assms
  by (simp add: updateChatSessionInSidebar_def historyListItems_def
      split: option.splits prod.splits bool.splits)

lemma updateSidebar_cong:
  assumes "token s' = token s" "historyList s' = historyList s"
    "historyItemsBefore s' = historyItemsBefore s" "historyItemsAfter s' = historyItemsAfter s"
  shows "fst (updateSidebar env data sid q t s') = fst (updateSidebar env data sid q t s)
    \<and> historyList (snd (updateSidebar env data sid q t s')) =
        historyList (snd (updateSidebar env data sid q t s))"
  using assms updateChatSessionInSidebar_cong [OF assms(2,3,4), of env sid q]
  by (simp add: updateSidebar_def addChatSessionToSidebar_def isUserLoggedIn_def
      split: option.splits)

lemma guestReminder_fields [simp]:
  "token (guestReminder s) = token s"
  "chatSessions (guestReminder s) = chatSessions s"
  "currentPaperContext (guestReminder s) = currentPaperContext s"
  "window_currentPaperContext (guestReminder s) = window_currentPaperContext s"
  "chatContainer (guestReminder s) = chatContainer s"
  "historyList (guestReminder s) = historyList s"
  by (simp_all add: guestReminder_def)

lemma guestReminder_trace: "\<exists>evs. trace (guestReminder s) = trace s @ evs"
  by (simp add: guestReminder_def)

lemma persist_success:
  assumes "currentPaperContext s = Some ctx" "property data ''session_id'' = Some sid" "truthy sid"
    "indexEntries (chatSessions s) = Some kvs"
    "storageAccepts env (JObj (AList.update (ctx_id ctx) (sessionRecord ctx sid (clock env)) kvs))"
  shows "persistSession env data q s =
    updateSidebar env data sid q (ctx_title ctx)
       (s\<lparr>currentPaperContext := Some (ctx\<lparr>chat_session_id := Some sid\<rparr>),
          chatSessions := Parsed (JObj (AList.update (ctx_id ctx) (sessionRecord ctx sid (clock env)) kvs)),
          trace := trace s @ [GetItemChatSessions,
             SetItemChatSessions (JObj (AList.update (ctx_id ctx) (sessionRecord ctx sid (clock env)) kvs)) True]\<rparr>)"
proof -
  have r: "readSavedSessions (s\<lparr>currentPaperContext := Some (ctx\<lparr>chat_session_id := Some sid\<rparr>)\<rparr>)
     = (Inr (JObj kvs), emit GetItemChatSessions (s\<lparr>currentPaperContext := Some (ctx\<lparr>chat_session_id := Some sid\<rparr>)\<rparr>))"
    using assms(4) by (auto simp: indexEntries_def readSavedSessions_def split: stored.splits jsval.splits)
  show ?thesis using assms(1,2,3,5)
    by (simp add: persistSession_def r writeSavedSessions_def emit_def)
qed

lemma persist_rejected:
  assumes "currentPaperContext s = Some ctx" "property data ''session_id'' = Some sid" "truthy sid"
    "indexEntries (chatSessions s) = Some kvs"
    "\<not> storageAccepts env (JObj (AList.update (ctx_id ctx) (sessionRecord ctx sid (clock env)) kvs))"
  shows "persistSession env data q s =
    (Some QuotaExceededError,
       s\<lparr>currentPaperContext := Some (ctx\<lparr>chat_session_id := Some sid\<rparr>),
          trace := trace s @ [GetItemChatSessions,
             SetItemChatSessions (JObj (AList.update (ctx_id ctx) (sessionRecord ctx sid (clock env)) kvs)) False]\<rparr>)"
proof -
  have r: "readSavedSessions (s\<lparr>currentPaperContext := Some (ctx\<lparr>chat_session_id := Some sid\<rparr>)\<rparr>)
     = (Inr (JObj kvs), emit GetItemChatSessions (s\<lparr>currentPaperContext := Some (ctx\<lparr>chat_session_id := Some sid\<rparr>)\<rparr>))"
    using assms(4) by (auto simp: indexEntries_def readSavedSessions_def split: stored.splits jsval.splits)
  show ?thesis using assms(1,2,3,5)
    by (simp add: persistSession_def r writeSavedSessions_def emit_def)
qed

lemma persist_context:
  assumes "currentPaperContext s = Some ctx" "property data ''session_id'' = Some sid" "truthy sid"
  shows "currentPaperContext (snd (persistSession env data q s)) = Some (ctx\<lparr>chat_session_id := Some sid\<rparr>)"
  using assms
  by (auto simp: persistSession_def readSavedSessions_def writeSavedSessions_def
      split: stored.splits sum.splits prod.splits if_splits)

lemma try_success:
  assumes "js_trim (modalQuestionInput s) = q"
    and "postQuestion env (sentRequest env s ctx) = Response st (Some data)" "ok st"
    and "property data ''session_id'' = Some sid"
  shows "\<exists>s3. token s3 = token s \<and> chatSessions s3 = chatSessions s
       \<and> currentPaperContext s3 = currentPaperContext s
       \<and> window_currentPaperContext s3 = window_currentPaperContext s
       \<and> historyList s3 = historyList s
       \<and> historyItemsBefore s3 = historyItemsBefore s
       \<and> historyItemsAfter s3 = historyItemsAfter s
       \<and> sendQuestion_try env q ctx (prepared q s) =
           (case persistSession env data q s3 of
              (Some e, s4) \<Rightarrow> (Some e, s4)
            | (None, s4) \<Rightarrow> (None, guestReminder s4))"
proof -
  obtain tk s1 where e: "ensureCsrfToken env (prepared q s) = (tk, s1)"
    by (cases "ensureCsrfToken env (prepared q s)")
  note rq = sentRequest_prepared [OF e assms(1)]
  note f = ensureCsrfToken_fields [OF e]
  have n: "data \<noteq> JNull" using assms(4) by auto
  let ?s3 = "addMessageToChat (property data ''answer'') False
        (removeTypingIndicator (emit (PostQuestion (sentRequest env s ctx)) s1))"
  have "sendQuestion_try env q ctx (prepared q s) =
           (case persistSession env data q ?s3 of
              (Some e, s4) \<Rightarrow> (Some e, s4)
            | (None, s4) \<Rightarrow> (None, guestReminder s4))"
    using assms(2,3) n by (simp add: sendQuestion_try_def e rq get_prop_def Let_def)
  moreover have "token ?s3 = token s \<and> chatSessions ?s3 = chatSessions s
       \<and> currentPaperContext ?s3 = currentPaperContext s
       \<and> window_currentPaperContext ?s3 = window_currentPaperContext s
       \<and> historyList ?s3 = historyList s
       \<and> historyItemsBefore ?s3 = historyItemsBefore s
       \<and> historyItemsAfter ?s3 = historyItemsAfter s"
    using f by (simp add: addMessageToChat_def removeTypingIndicator_def)
  ultimately show ?thesis by blast
qed

lemma sendQuestion_never_throws: "fst (sendQuestion env s) = None"
  by (simp add: sendQuestion_def Let_def split: option.splits prod.splits)

lemma exchange_context:
  assumes "js_trim (modalQuestionInput s) = q" "q \<noteq> []" "currentPaperContext s = Some ctx"
    and "postQuestion env (sentRequest env s ctx) = Response st (Some data)" "ok st"
    and "property data ''session_id'' = Some sid" "truthy sid"
  shows "currentPaperContext (snd (sendQuestion env s)) = Some (ctx\<lparr>chat_session_id := Some sid\<rparr>)"
proof -
  from try_success [OF assms(1,4,5,6)] obtain s3 where
    s3: "currentPaperContext s3 = currentPaperContext s"
    and t: "sendQuestion_try env q ctx (prepared q s) =
           (case persistSession env data q s3 of
              (Some e, s4) \<Rightarrow> (Some e, s4)
            | (None, s4) \<Rightarrow> (None, guestReminder s4))" by blast
  from persist_context [of s3 ctx data sid env q] s3 assms(3,6,7)
  have c: "currentPaperContext (snd (persistSession env data q s3)) = Some (ctx\<lparr>chat_session_id := Some sid\<rparr>)"
    by simp
  obtain r s4 where p: "persistSession env data q s3 = (r, s4)" by (metis surj_pair)
  show ?thesis using c
    by (cases r) (simp_all add: sendQuestion_unfold [OF assms(1,2,3)] t p addMessageToChat_def removeTypingIndicator_def)
qed

lemma exchange_success:
  assumes "js_trim (modalQuestionInput s) = q" "q \<noteq> []" "currentPaperContext s = Some ctx"
    and "postQuestion env (sentRequest env s ctx) = Response st (Some data)" "ok st"
    and "property data ''session_id'' = Some sid" "truthy sid"
    and "indexEntries (chatSessions s) = Some kvs"
    and "storageAccepts env (JObj (AList.update (ctx_id ctx) (sessionRecord ctx sid (clock env)) kvs))"
  shows "chatSessions (snd (sendQuestion env s)) =
           Parsed (JObj (AList.update (ctx_id ctx) (sessionRecord ctx sid (clock env)) kvs))
     \<and> historyList (snd (sendQuestion env s)) =
         historyList (snd (updateSidebar env data sid q (ctx_title ctx) s))
     \<and> token (snd (sendQuestion env s)) = token s
     \<and> (fst (updateSidebar env data sid q (ctx_title ctx) s) \<noteq> None \<longrightarrow>
          last (chatContainer (snd (sendQuestion env s))) =
            MessageBubble (Some (JStr ''Terjadi kesalahan jaringan. Silakan coba lagi.'')) False)"
proof -
  from try_success [OF assms(1,4,5,6)] obtain s3 where
    s3: "currentPaperContext s3 = currentPaperContext s" "chatSessions s3 = chatSessions s"
       "token s3 = token s" "historyList s3 = historyList s"
       "historyItemsBefore s3 = historyItemsBefore s" "historyItemsAfter s3 = historyItemsAfter s"
    and t: "sendQuestion_try env q ctx (prepared q s) =
           (case persistSession env data q s3 of
              (Some e, s4) \<Rightarrow> (Some e, s4)
            | (None, s4) \<Rightarrow> (None, guestReminder s4))" by blast
  let ?s4 = "s3\<lparr>currentPaperContext := Some (ctx\<lparr>chat_session_id := Some sid\<rparr>),
          chatSessions := Parsed (JObj (AList.update (ctx_id ctx) (sessionRecord ctx sid (clock env)) kvs)),
          trace := trace s3 @ [GetItemChatSessions,
             SetItemChatSessions (JObj (AList.update (ctx_id ctx) (sessionRecord ctx sid (clock env)) kvs)) True]\<rparr>"
  have p: "persistSession env data q s3 = updateSidebar env data sid q (ctx_title ctx) ?s4"
    using persist_success [of s3 ctx data sid kvs env q] s3 assms(3,6,7,8,9) by simp
  have h: "fst (updateSidebar env data sid q (ctx_title ctx) ?s4) =
             fst (updateSidebar env data sid q (ctx_title ctx) s)
     \<and> historyList (snd (updateSidebar env data sid q (ctx_title ctx) ?s4)) =
         historyList (snd (updateSidebar env data sid q (ctx_title ctx) s))"
    by (rule updateSidebar_cong) (simp_all add: s3)
  obtain r s5 where u: "updateSidebar env data sid q (ctx_title ctx) ?s4 = (r, s5)"
    by (metis surj_pair)
  have f: "chatSessions s5 =
        Parsed (JObj (AList.update (ctx_id ctx) (sessionRecord ctx sid (clock env)) kvs))"
      "token s5 = token s"
    using updateSidebar_fields(1,2) [of env data sid q "ctx_title ctx" ?s4] s3(3)
    by (simp_all add: u)
  from h u have h': "fst (updateSidebar env data sid q (ctx_title ctx) s) = r"
    "historyList (snd (updateSidebar env data sid q (ctx_title ctx) s)) = historyList s5"
    by simp_all
  show ?thesis
  proof (cases r)
    case None
    then have "sendQuestion env s = (None, guestReminder s5)"
      by (simp add: sendQuestion_unfold [OF assms(1,2,3)] t p u)
    then show ?thesis using f None by (simp add: h')
  next
    case (Some e)
    then have "sendQuestion env s =
        (None, emit ConsoleError
           (addMessageToChat (Some (JStr ''Terjadi kesalahan jaringan. Silakan coba lagi.''))
              False (removeTypingIndicator s5)))"
      by (simp add: sendQuestion_unfold [OF assms(1,2,3)] t p u)
    then show ?thesis using f
      by (simp add: h' addMessageToChat_def removeTypingIndicator_def)
  qed
qed

lemma exchange_rejected:
  assumes "js_trim (modalQuestionInput s) = q" "q \<noteq> []" "currentPaperContext s = Some ctx"
    and "postQuestion env (sentRequest env s ctx) = Response st (Some data)" "ok st"
    and "property data ''session_id'' = Some sid" "truthy sid"
    and "indexEntries (chatSessions s) = Some kvs"
    and "\<not> storageAccepts env (JObj (AList.update (ctx_id ctx) (sessionRecord ctx sid (clock env)) kvs))"
  shows "chatSessions (snd (sendQuestion env s)) = chatSessions s
     \<and> last (trace (snd (sendQuestion env s))) = ConsoleError
     \<and> historyList (snd (sendQuestion env s)) = historyList s
     \<and> last (chatContainer (snd (sendQuestion env s))) =
         MessageBubble (Some (JStr ''Terjadi kesalahan jaringan. Silakan coba lagi.'')) False"
proof -
  from try_success [OF assms(1,4,5,6)] obtain s3 where
    s3: "currentPaperContext s3 = currentPaperContext s" "chatSessions s3 = chatSessions s"
       "token s3 = token s" "historyList s3 = historyList s"
    and t: "sendQuestion_try env q ctx (prepared q s) =
           (case persistSession env data q s3 of
              (Some e, s4) \<Rightarrow> (Some e, s4)
            | (None, s4) \<Rightarrow> (None, guestReminder s4))" by blast
  have p: "persistSession env data q s3 =
    (Some QuotaExceededError,
       s3\<lparr>currentPaperContext := Some (ctx\<lparr>chat_session_id := Some sid\<rparr>),
          trace := trace s3 @ [GetItemChatSessions,
             SetItemChatSessions (JObj (AList.update (ctx_id ctx) (sessionRecord ctx sid (clock env)) kvs)) False]\<rparr>)"
    using persist_rejected [of s3 ctx data sid kvs env q] s3 assms(3,6,7,8,9) by simp
  show ?thesis
    using s3 by (simp add: sendQuestion_unfold [OF assms(1,2,3)] t p addMessageToChat_def removeTypingIndicator_def)
qed

subsection \<open>The sidebar after an exchange\<close>

lemma find_holds: "find P xs = Some x \<Longrightarrow> P x"
  by (induction xs) (auto split: if_splits)

lemma find_filter_remove1:
  "find P xs = Some x \<Longrightarrow> Suc (length (filter P (remove1 x xs))) = length (filter P xs)"
proof (induction xs)
  case Nil
  then show ?case by simp
next
  case (Cons a xs)
  show ?case
  proof (cases "P a")
    case True
    with Cons.prems have "x = a" by simp
    with True show ?thesis by simp
  next
    case False
    with Cons.prems have f: "find P xs = Some x" by simp
    from find_holds [OF f] False have "x \<noteq> a" by auto
    with Cons.IH [OF f] False show ?thesis by simp
  qed
qed

lemma sidebar_new:
  assumes "isUserLoggedIn s" "historyList s = Some items"
    "truthy_opt (property data ''is_new_session'')" "sidebarScriptLoaded env"
  shows "updateSidebar env data sid q t s =
     (None, s\<lparr>historyList := Some
        ((\<lparr>data_session_id = toText env sid, item_question = Some q,
           item_title = Some t, item_date = Some (clock env)\<rparr>, True) # items)\<rparr>)"
  using assms by (simp add: updateSidebar_def addChatSessionToSidebar_def)

lemma sidebar_existing:
  assumes "isUserLoggedIn s" "historyList s = Some items"
    "\<not> truthy_opt (property data ''is_new_session'')"
    "attrSelectorValue env (toText env sid) = Some k"
    "\<not> list_ex (\<lambda>i. data_session_id i = k) (historyItemsBefore s)"
    "find (\<lambda>x. data_session_id (fst x) = k) items = Some (it, True)"
  shows "updateSidebar env data sid q t s =
     (None, s\<lparr>historyList := Some
        ((it\<lparr>item_question :=
               map_option (\<lambda>_. if length q > 40 then take 40 q @ ''...'' else q)
                 (item_question it),
             item_date := map_option (\<lambda>_. clock env) (item_date it)\<rparr>, True)
         # remove1 (it, True) items)\<rparr>)"
  using assms
  by (simp add: updateSidebar_def updateChatSessionInSidebar_def historyListItems_def
      touchItem_def shortQuestion_def)

lemma sidebar_absent:
  assumes "isUserLoggedIn s" "historyList s = Some items"
    "\<not> truthy_opt (property data ''is_new_session'')"
    "attrSelectorValue env (toText env sid) = Some k"
    "find (\<lambda>x. data_session_id (fst x) = k) items = None"
  shows "fst (updateSidebar env data sid q t s) = None
    \<and> historyList (snd (updateSidebar env data sid q t s)) = Some items"
  using assms
  by (simp add: updateSidebar_def updateChatSessionInSidebar_def historyListItems_def)

lemma sidebar_invalid_selector:
  assumes "isUserLoggedIn s"
    "\<not> truthy_opt (property data ''is_new_session'')"
    "attrSelectorValue env (toText env sid) = None"
  shows "updateSidebar env data sid q t s = (Some SyntaxError, s)"
  using assms by (simp add: updateSidebar_def updateChatSessionInSidebar_def)

lemma sidebar_guest:
  assumes "\<not> isUserLoggedIn s"
  shows "updateSidebar env data sid q t s = (None, s)"
  using assms by (simp add: updateSidebar_def)

lemma sidebar_no_duplicate:
  assumes "find (\<lambda>x. data_session_id (fst x) = k) items = Some (it, True)"
  shows "length (filter (\<lambda>x. data_session_id (fst x) = k)
           ((it\<lparr>item_question := a, item_date := b\<rparr>, True) # remove1 (it, True) items))
         = length (filter (\<lambda>x. data_session_id (fst x) = k) items)"
  using find_filter_remove1 [OF assms] find_holds [OF assms] by simp




subsection \<open>Reading the stored index\<close>

lemma check_readable:
  assumes "readable (chatSessions s)"
  shows "\<exists>r. fst (checkExistingChatSession env p s) = Inr r"
  using readSavedSessions_readable [OF assms]
  by (auto simp: checkExistingChatSession_def get_prop_def split: prod.splits option.splits)

lemma init_readable:
  assumes "readable (chatSessions s)"
  shows "fst (initChatModal paper p t s) = None
    \<and> window_currentPaperContext (snd (initChatModal paper p t s)) =
        Some \<lparr>ctx_id = p, ctx_title = t,
              ctx_authors = str_or (paper_authors paper) [],
              ctx_abstract = str_or (paper_abstract paper) (str_or (paper_summary paper) []),
              pdf_url = str_or_null (paper_pdf_url paper),
              has_local_pdf = False,
              chat_session_id = storedSessionId (property (indexValue (chatSessions s)) p)\<rparr>"
proof -
  have r: "readable (chatSessions (s\<lparr>chatContainer := []\<rparr>))" using assms by simp
  show ?thesis
    using readSavedSessions_readable [OF r]
    by (simp add: initChatModal_def get_prop_def Let_def split: option.splits)
qed

lemma storedSessionId_miss:
  "storedSessionId None = None"
  "\<not> truthy v \<Longrightarrow> storedSessionId (Some v) = None"
  "typeof v = TBoolean \<Longrightarrow> storedSessionId (Some v) = None"
  "typeof v = TObject \<Longrightarrow> \<not> truthy_opt (property v ''sessionId'') \<Longrightarrow> storedSessionId (Some v) = None"
  by (simp_all add: storedSessionId_def)

lemma check_miss_trace:
  assumes "readable (chatSessions s)" "isUserLoggedIn s"
    "storedSessionId (property (indexValue (chatSessions s)) p) = None"
  shows "\<exists>evs. trace (snd (checkExistingChatSession env p s)) =
     trace s @ GetItemChatSessions # FetchPaperSession p # evs"
proof -
  let ?v = "indexValue (chatSessions s)"
  obtain r3 s3 where l: "lookupPaperSession env p ?v (emit GetItemChatSessions s) = (r3, s3)"
    by (metis surj_pair)
  from lookup_trace [of env p ?v "emit GetItemChatSessions s"] l
  obtain evs where "trace s3 = trace s @ GetItemChatSessions # FetchPaperSession p # evs" by auto
  then show ?thesis
    using readSavedSessions_readable [OF assms(1)] assms(2,3)
    by (simp add: checkExistingChatSession_def get_prop_def verify_no_entry l)
qed

text \<open>
  C5, as the code has it. When the stored item is missing or parses to a value other
  than \<^verbatim>\<open>null\<close>, reading the entry of a paper throws neither in
  \<^verbatim>\<open>checkExistingChatSession\<close> nor in \<^verbatim>\<open>initChatModal\<close>; the session id the new
  context gets is the one the entry gives; a missing entry gives none, and so does a
  malformed one (a falsy value, a boolean, an object or array without a truthy
  \<^verbatim>\<open>sessionId\<close>), after which the resolver goes straight to the lookup by paper.
\<close>

theorem readable_index_read_never_fails:
  assumes "readable (chatSessions s)"
  shows "(\<exists>r. fst (checkExistingChatSession env p s) = Inr r)
    \<and> fst (initChatModal paper p t s) = None
    \<and> map_option chat_session_id (window_currentPaperContext (snd (initChatModal paper p t s)))
        = Some (storedSessionId (property (indexValue (chatSessions s)) p))
    \<and> (property (indexValue (chatSessions s)) p = None \<longrightarrow>
         storedSessionId (property (indexValue (chatSessions s)) p) = None)
    \<and> (property (indexValue (chatSessions s)) p = Some v
         \<and> (\<not> truthy v \<or> typeof v = TBoolean
              \<or> (typeof v = TObject \<and> \<not> truthy_opt (property v ''sessionId'')))
         \<longrightarrow> storedSessionId (property (indexValue (chatSessions s)) p) = None)
    \<and> (isUserLoggedIn s \<and> storedSessionId (property (indexValue (chatSessions s)) p) = None
         \<longrightarrow> (\<exists>evs. trace (snd (checkExistingChatSession env p s)) =
                 trace s @ GetItemChatSessions # FetchPaperSession p # evs))"
  using check_readable [OF assms, of env p] init_readable [OF assms, of paper p t]
    storedSessionId_miss(1) storedSessionId_miss(2-4) [of v] check_miss_trace [OF assms, of p env]
  by auto

text \<open>
  The claim fails for a stored item that is not JSON: \<^verbatim>\<open>JSON.parse\<close> stands
  outside every \<^verbatim>\<open>try\<close>, and both functions throw the SyntaxError.
\<close>

theorem unparseable_index_throws:
  "fst (checkExistingChatSession (world NetworkError NetworkError NetworkError 0) ''P1''
         (page (Some ''tok'') Unparseable None [])) = Inl SyntaxError
   \<and> fst (initChatModal noPaper ''P1'' ''T'' (page None Unparseable None [])) = Some SyntaxError"
  by (simp add: checkExistingChatSession_def initChatModal_def readSavedSessions_def page_def
      isUserLoggedIn_def)

theorem readable_index_read_never_fails_witness:
  "fst (initChatModal noPaper ''P1'' ''T''
          (page None (Parsed (JObj [(''P1'', JObj [(''title'', JStr ''x'')])])) None [])) = None
   \<and> map_option chat_session_id (window_currentPaperContext (snd (initChatModal noPaper ''P1'' ''T''
          (page None (Parsed (JObj [(''P1'', JObj [(''title'', JStr ''x'')])])) None []))))
      = Some None"
proof -
  let ?s = "page None (Parsed (JObj [(''P1'', JObj [(''title'', JStr ''x'')])])) None []"
  have a: "readable (chatSessions ?s)" by (simp add: readable_def page_def)
  have b: "property (indexValue (chatSessions ?s)) ''P1'' = Some (JObj [(''title'', JStr ''x'')])"
    by (simp add: indexValue_def page_def)
  have c: "typeof (JObj [(''title'', JStr ''x'')]) = TObject
     \<and> \<not> truthy_opt (property (JObj [(''title'', JStr ''x'')]) ''sessionId'')"
    by (simp add: truthy_opt_def)
  from readable_index_read_never_fails [OF a,
      of "world NetworkError NetworkError NetworkError 0" "''P1''" noPaper "''T''"
        "JObj [(''title'', JStr ''x'')]"] b c
  show ?thesis by auto
qed

subsection \<open>Guests\<close>

lemma init_trace:
  "filter is_history_load (trace (snd (initChatModal paper p t s))) =
     filter is_history_load (trace s)
   \<or> isUserLoggedIn s"
  by (auto simp: initChatModal_def readSavedSessions_def is_history_load_def Let_def isUserLoggedIn_def
      split: stored.splits sum.splits option.splits)

lemma click_guest_no_history:
  assumes "\<not> isUserLoggedIn s"
  shows "filter is_history_load (trace (snd (askBtn_click env paper p t s))) =
     filter is_history_load (trace s)"
proof -
  obtain r s1 where i: "initChatModal paper p t s = (r, s1)" by (metis surj_pair)
  from init_trace [of paper p t s] assms i
  have "filter is_history_load (trace s1) = filter is_history_load (trace s)" by simp
  then show ?thesis using assms
    by (cases r) (simp_all add: askBtn_click_def openChatModal_def i is_history_load_def)
qed



subsection \<open>A storage that refuses the write\<close>

lemma check_write_rejected:
  assumes "isUserLoggedIn s" "indexEntries (chatSessions s) = Some kvs"
    "storedSessionId (map_of kvs p) = None"
    "paperLookup env p = Some (sid', data')"
    "\<not> storageAccepts env (JObj (AList.update p (serverRecord p sid' data') kvs))"
  shows "checkExistingChatSession env p s =
     (Inr None, s\<lparr>trace := trace s @ [GetItemChatSessions, FetchPaperSession p,
        SetItemChatSessions (JObj (AList.update p (serverRecord p sid' data') kvs)) False,
        ConsoleError]\<rparr>)"
  using assms(3)
  by (simp add: check_unverified [OF assms(1,2), of p _ env] lookup_rejected [OF assms(4,5)] emit_def)

text \<open>
  C7, as the code has it. \<^verbatim>\<open>sendQuestion\<close> never throws. After an answer that
  carries a session id, the context holds that id whether or not the record could be
  stored. When \<^verbatim>\<open>setItem\<close> refuses the record, the stored item is what it was and
  the error is logged, but the refusal is handled by the \<^verbatim>\<open>catch\<close> of the whole
  exchange: the view ends with the network-failure message and the sidebar is left as it
  was. \<^verbatim>\<open>checkExistingChatSession\<close> does not throw on an index that reads as an
  object either: when \<^verbatim>\<open>setItem\<close> refuses the record of a session found by paper
  id, the error is logged and the function returns \<^verbatim>\<open>null\<close>, not the session.
\<close>

theorem storage_failure_is_absorbed:
  assumes "js_trim (modalQuestionInput s) = q" and "q \<noteq> []"
    and "currentPaperContext s = Some ctx"
    and "postQuestion env (sentRequest env s ctx) = Response st (Some data)" and "ok st"
    and "property data ''session_id'' = Some sid" and "truthy sid"
  shows "fst (sendQuestion env s) = None
    \<and> currentPaperContext (snd (sendQuestion env s)) = Some (ctx\<lparr>chat_session_id := Some sid\<rparr>)
    \<and> (indexEntries (chatSessions s) = Some kvs
         \<and> \<not> storageAccepts env
               (JObj (AList.update (ctx_id ctx) (sessionRecord ctx sid (clock env)) kvs))
         \<longrightarrow> chatSessions (snd (sendQuestion env s)) = chatSessions s
            \<and> last (trace (snd (sendQuestion env s))) = ConsoleError
            \<and> historyList (snd (sendQuestion env s)) = historyList s
            \<and> last (chatContainer (snd (sendQuestion env s))) =
                MessageBubble (Some (JStr ''Terjadi kesalahan jaringan. Silakan coba lagi.''))
                  False)
    \<and> (isUserLoggedIn s \<and> indexEntries (chatSessions s) = Some kvs
         \<longrightarrow> (\<exists>r. fst (checkExistingChatSession env p s) = Inr r))
    \<and> (isUserLoggedIn s \<and> indexEntries (chatSessions s) = Some kvs
         \<and> storedSessionId (map_of kvs p) = None
         \<and> paperLookup env p = Some (sid', data')
         \<and> \<not> storageAccepts env (JObj (AList.update p (serverRecord p sid' data') kvs))
         \<longrightarrow> checkExistingChatSession env p s =
               (Inr None,
                s\<lparr>trace := trace s @
                   [GetItemChatSessions, FetchPaperSession p,
                    SetItemChatSessions
                      (JObj (AList.update p (serverRecord p sid' data') kvs)) False,
                    ConsoleError]\<rparr>))"
  using sendQuestion_never_throws [of env s]
    exchange_context [OF assms]
    exchange_rejected [OF assms, of kvs]
    check_never_throws [of s kvs env p]
    check_write_rejected [of s kvs p env sid' data']
  by blast

text \<open>
  The claim fails on a storage that refuses every write. A logged-in user's exchange is
  answered with a new session: the view ends with the network-failure message and the
  sidebar gets no entry. The server knows a session \<open>S4\<close> for the paper: resolution
  returns \<^verbatim>\<open>null\<close>.
\<close>

theorem refused_write_is_not_silent:
  "last (chatContainer (snd (sendQuestion
      ((world NetworkError NetworkError (Response 200 (Some (answerBody ''S1'' True))) 5)
         \<lparr>storageAccepts := (\<lambda>v. False)\<rparr>)
      (page (Some ''tok'') NoItem (Some (contextOf ''P1'' ''T'' None)) ''hi''))))
     = MessageBubble (Some (JStr ''Terjadi kesalahan jaringan. Silakan coba lagi.'')) False
   \<and> historyList (snd (sendQuestion
      ((world NetworkError NetworkError (Response 200 (Some (answerBody ''S1'' True))) 5)
         \<lparr>storageAccepts := (\<lambda>v. False)\<rparr>)
      (page (Some ''tok'') NoItem (Some (contextOf ''P1'' ''T'' None)) ''hi''))) = Some []
   \<and> fst (checkExistingChatSession
      ((world NetworkError (Response 200 (Some (JObj [(''session_id'', JStr ''S4'')])))
          NetworkError 5) \<lparr>storageAccepts := (\<lambda>v. False)\<rparr>)
      ''P1''
      (page (Some ''tok'') NoItem None [])) = Inr None"
  by (simp add: sendQuestion_def sendQuestion_try_def persistSession_def
      ensureCsrfToken_def requestBody_def readSavedSessions_def writeSavedSessions_def
      addMessageToChat_def showTypingIndicator_def removeTypingIndicator_def
      sessionRecord_def serverRecord_def truthy_opt_def get_prop_def isUserLoggedIn_def
      getToken_def page_def world_def contextOf_def answerBody_def ok_def emit_def js_trim_def
      is_space_def checkExistingChatSession_def verifySavedSession_def lookupPaperSession_def
      storedSessionId_def or_else_def Let_def)

theorem storage_failure_is_absorbed_witness:
  "fst (sendQuestion
      ((world NetworkError NetworkError (Response 200 (Some (answerBody ''S1'' True))) 5)
         \<lparr>storageAccepts := (\<lambda>v. False)\<rparr>)
      (page (Some ''tok'') NoItem (Some (contextOf ''P1'' ''T'' None)) ''hi'')) = None
   \<and> currentPaperContext (snd (sendQuestion
      ((world NetworkError NetworkError (Response 200 (Some (answerBody ''S1'' True))) 5)
         \<lparr>storageAccepts := (\<lambda>v. False)\<rparr>)
      (page (Some ''tok'') NoItem (Some (contextOf ''P1'' ''T'' None)) ''hi'')))
     = Some (contextOf ''P1'' ''T'' (Some (JStr ''S1'')))
   \<and> chatSessions (snd (sendQuestion
      ((world NetworkError NetworkError (Response 200 (Some (answerBody ''S1'' True))) 5)
         \<lparr>storageAccepts := (\<lambda>v. False)\<rparr>)
      (page (Some ''tok'') NoItem (Some (contextOf ''P1'' ''T'' None)) ''hi''))) = NoItem"
proof -
  let ?ctx = "contextOf ''P1'' ''T'' None"
  let ?e = "(world NetworkError NetworkError (Response 200 (Some (answerBody ''S1'' True))) 5)
         \<lparr>storageAccepts := (\<lambda>v. False)\<rparr>"
  let ?s = "page (Some ''tok'') NoItem (Some ?ctx) ''hi''"
  have a: "js_trim (modalQuestionInput ?s) = ''hi''"
    by (simp add: page_def js_trim_def is_space_def)
  have b: "''hi'' \<noteq> []" by simp
  have c: "currentPaperContext ?s = Some ?ctx" by (simp add: page_def)
  have d: "postQuestion ?e (sentRequest ?e ?s ?ctx) = Response 200 (Some (answerBody ''S1'' True))"
    by (simp add: world_def)
  have e: "ok 200" by (simp add: ok_def)
  have f: "property (answerBody ''S1'' True) ''session_id'' = Some (JStr ''S1'')"
    by (simp add: answerBody_def)
  have g: "truthy (JStr ''S1'')" by simp
  have h: "indexEntries (chatSessions ?s) = Some []" by (simp add: page_def indexEntries_def)
  have i: "\<not> storageAccepts ?e (JObj (AList.update (ctx_id ?ctx) (sessionRecord ?ctx (JStr ''S1'') (clock ?e)) []))"
    by (simp add: world_def)
  have k: "chatSessions ?s = NoItem" "?ctx\<lparr>chat_session_id := Some (JStr ''S1'')\<rparr> = contextOf ''P1'' ''T'' (Some (JStr ''S1''))"
    by (simp_all add: page_def contextOf_def)
  from storage_failure_is_absorbed [OF a b c d e f g, of "[]"] h i
  show ?thesis by (simp add: k)
qed

subsection \<open>Opening the chat again\<close>

lemma init_trace_ext: "\<exists>evs. trace (snd (initChatModal paper p t s)) = trace s @ evs"
  by (auto simp: initChatModal_def readSavedSessions_def Let_def emit_def
      split: stored.splits sum.splits option.splits)

lemma open_trace_ext: "\<exists>evs. trace (snd (openChatModal paper p t s)) = trace s @ evs"
proof -
  obtain r s1 where i: "initChatModal paper p t s = (r, s1)" by (metis surj_pair)
  from init_trace_ext [of paper p t s] i obtain evs where "trace s1 = trace s @ evs" by auto
  then show ?thesis by (cases r) (simp_all add: openChatModal_def i)
qed

lemma click_trace_ext:
  assumes "isUserLoggedIn s"
  shows "\<exists>evs. trace (snd (askBtn_click env paper p t s)) =
     trace (snd (checkExistingChatSession env p s)) @ evs"
proof -
  obtain r s1 where c: "checkExistingChatSession env p s = (r, s1)" by (metis surj_pair)
  from open_trace_ext [of paper p t s1]
  obtain evs where o: "trace (snd (openChatModal paper p t s1)) = trace s1 @ evs" by auto
  show ?thesis using assms o
    by (auto simp: askBtn_click_def c split: sum.splits option.splits)
qed

lemma click_reruns_resolution:
  assumes "isUserLoggedIn s" "indexEntries (chatSessions s) = Some kvs"
    "storedSessionId (map_of kvs p) = Some sid"
  shows "\<exists>evs. trace (snd (askBtn_click env paper p t s)) =
     trace s @ GetItemChatSessions # FetchSession sid # evs"
proof -
  from check_trace_cached [OF assms, of env] obtain evs where
    a: "trace (snd (checkExistingChatSession env p s)) = trace s @ GetItemChatSessions # FetchSession sid # evs"
    by auto
  from click_trace_ext [OF assms(1), of env paper p t] obtain evs' where
    b: "trace (snd (askBtn_click env paper p t s)) = trace (snd (checkExistingChatSession env p s)) @ evs'"
    by auto
  show ?thesis unfolding b a by simp
qed

lemma open_readable:
  assumes "readable (chatSessions s)"
  shows "fst (openChatModal paper p t s) = None
    \<and> window_currentPaperContext (snd (openChatModal paper p t s)) =
        Some \<lparr>ctx_id = p, ctx_title = t,
              ctx_authors = str_or (paper_authors paper) [],
              ctx_abstract = str_or (paper_abstract paper) (str_or (paper_summary paper) []),
              pdf_url = str_or_null (paper_pdf_url paper),
              has_local_pdf = False,
              chat_session_id = storedSessionId (property (indexValue (chatSessions s)) p)\<rparr>
    \<and> chatContainer (snd (openChatModal paper p t s)) =
        (if storedSessionId (property (indexValue (chatSessions s)) p) \<noteq> None
            \<and> isUserLoggedIn s
         then [] else [WelcomeMessage t])"
proof -
  have r: "readable (chatSessions (s\<lparr>chatContainer := []\<rparr>))" using assms by simp
  show ?thesis
    using readSavedSessions_readable [OF r]
    by (auto simp add: openChatModal_def initChatModal_def get_prop_def Let_def
        isUserLoggedIn_def split: option.splits)
qed

lemma open_unreadable:
  assumes "\<not> readable (chatSessions s)"
  shows "fst (openChatModal paper p t s) \<noteq> None
    \<and> chatContainer (snd (openChatModal paper p t s)) = []
    \<and> window_currentPaperContext (snd (openChatModal paper p t s)) =
        window_currentPaperContext s"
  using assms
  by (auto simp add: openChatModal_def initChatModal_def readSavedSessions_def readable_def
      get_prop_def split: stored.splits)

lemma click_guest:
  assumes "\<not> isUserLoggedIn s"
  shows "askBtn_click env paper p t s = openChatModal paper p t s"
  using assms by (simp add: askBtn_click_def)

lemma click_unresolved:
  assumes "isUserLoggedIn s" "checkExistingChatSession env p s = (Inr None, s1)"
  shows "askBtn_click env paper p t s = openChatModal paper p t s1"
  using assms by (simp add: askBtn_click_def)

lemma write_keeps_token: "token (snd (writeSavedSessions env v s)) = token s"
  by (simp add: writeSavedSessions_def)

lemma verify_keeps_token: "token (snd (verifySavedSession env p saved entry s)) = token s"
  by (simp add: verifySavedSession_def writeSavedSessions_def
      split: option.splits fetch_result.splits)

lemma lookup_keeps_token: "token (snd (lookupPaperSession env p saved s)) = token s"
  by (simp add: lookupPaperSession_def writeSavedSessions_def
      split: option.splits fetch_result.splits sum.splits)

lemma check_keeps_token: "token (snd (checkExistingChatSession env p s)) = token s"
proof (cases "isUserLoggedIn s")
  case False
  then show ?thesis by (simp add: checkExistingChatSession_def)
next
  case True
  obtain r1 s1 where r: "readSavedSessions s = (r1, s1)" by (metis surj_pair)
  have t1: "token s1 = token s"
    using r by (auto simp: readSavedSessions_def split: stored.splits)
  show ?thesis
  proof (cases r1)
    case (Inl e)
    then show ?thesis using True r t1 by (simp add: checkExistingChatSession_def)
  next
    case (Inr saved)
    show ?thesis
    proof (cases "get_prop saved p")
      case (Inl e)
      then show ?thesis using True r Inr t1 by (simp add: checkExistingChatSession_def)
    next
      case entry: (Inr entry)
      obtain v saved' s2 where v: "verifySavedSession env p saved entry s1 = ((v, saved'), s2)"
        by (metis surj_pair)
      from verify_keeps_token [of env p saved entry s1] v t1
      have t2: "token s2 = token s" by simp
      show ?thesis
      proof (cases v)
        case (Some sid)
        then show ?thesis using True r Inr entry v t2
          by (simp add: checkExistingChatSession_def)
      next
        case None
        obtain r3 s3 where l: "lookupPaperSession env p saved' s2 = (r3, s3)"
          by (metis surj_pair)
        from lookup_keeps_token [of env p saved' s2] l t2 have "token s3 = token s" by simp
        then show ?thesis using True r Inr entry v None l
          by (simp add: checkExistingChatSession_def)
      qed
    qed
  qed
qed




subsection \<open>The stamp of the last use\<close>

lemma stamp_le_refl [simp]: "stamp_le x x"
  by (cases x) simp_all

lemma stamp_le_trans: "stamp_le a b \<Longrightarrow> stamp_le b c \<Longrightarrow> stamp_le a c"
  by (cases a; cases b; cases c) simp_all

lemma indexValue_Parsed [simp]: "indexValue (Parsed v) = v"
  by (simp add: indexValue_def)

lemma lastUsedAt_set_prop:
  assumes "set_prop (indexValue st) k (sessionRecord ctx sid t) = Inr v"
  shows "lastUsedAt (Parsed v) p = lastUsedAt st p \<or> lastUsedAt (Parsed v) p = Some t"
proof (cases "indexValue st")
  case (JObj kvs)
  with assms have v: "v = JObj (AList.update k (sessionRecord ctx sid t) kvs)" by simp
  show ?thesis
  proof (cases "p = k")
    case True
    then show ?thesis
      by (simp add: v lastUsedAt_def AList.update_conv' sessionRecord_def)
  next
    case False
    then show ?thesis using JObj
      by (simp add: v lastUsedAt_def AList.update_conv')
  qed
next
  case JNull
  with assms show ?thesis by simp
next
  case (JBool x)
  with assms show ?thesis by (auto simp: lastUsedAt_def)
next
  case (JNum x)
  with assms show ?thesis by (auto simp: lastUsedAt_def)
next
  case (JStr x)
  with assms show ?thesis by (auto simp: lastUsedAt_def)
next
  case (JDate x)
  with assms show ?thesis by (auto simp: lastUsedAt_def)
next
  case (JArr x)
  with assms show ?thesis by (auto simp: lastUsedAt_def)
qed

lemma read_any:
  "readSavedSessions s =
     (if chatSessions s = Unparseable then Inl SyntaxError else Inr (indexValue (chatSessions s)),
      emit GetItemChatSessions s)"
  by (simp add: readSavedSessions_def indexValue_def split: stored.splits)

lemma persist_store:
  "chatSessions (snd (persistSession env data q s)) = chatSessions s
   \<or> (\<exists>ctx sid v. set_prop (indexValue (chatSessions s)) (ctx_id ctx)
                     (sessionRecord ctx sid (clock env)) = Inr v
        \<and> chatSessions (snd (persistSession env data q s)) = Parsed v)"
proof (cases "property data ''session_id''")
  case None
  then show ?thesis by (simp add: persistSession_def)
next
  case (Some sid)
  show ?thesis
  proof (cases "currentPaperContext s")
    case None
    then show ?thesis using Some by (simp add: persistSession_def)
  next
    case ctx: (Some ctx)
    let ?s1 = "s\<lparr>currentPaperContext := Some (ctx\<lparr>chat_session_id := Some sid\<rparr>)\<rparr>"
    have c1: "chatSessions ?s1 = chatSessions s" by simp
    show ?thesis
    proof (cases "truthy sid \<and> chatSessions s \<noteq> Unparseable")
      case False
      then show ?thesis using Some ctx
        by (auto simp: persistSession_def read_any)
    next
      case True
      show ?thesis
      proof (cases "set_prop (indexValue (chatSessions s)) (ctx_id ctx)
                      (sessionRecord ctx sid (clock env))")
        case (Inl e)
        then show ?thesis using Some ctx True
          by (simp add: persistSession_def read_any)
      next
        case (Inr v)
        show ?thesis
        proof (cases "storageAccepts env v")
          case False
          then show ?thesis using Some ctx True Inr
            by (simp add: persistSession_def read_any writeSavedSessions_def)
        next
          case acc: True
          have "chatSessions (snd (persistSession env data q s)) = Parsed v"
            using Some ctx True Inr acc
            by (simp add: persistSession_def read_any writeSavedSessions_def)
          with Inr show ?thesis by blast
        qed
      qed
    qed
  qed
qed


lemma try_store:
  "chatSessions (snd (sendQuestion_try env q ctx s)) = chatSessions s
   \<or> (\<exists>ctx' sid v. set_prop (indexValue (chatSessions s)) (ctx_id ctx')
                     (sessionRecord ctx' sid (clock env)) = Inr v
        \<and> chatSessions (snd (sendQuestion_try env q ctx s)) = Parsed v)"
proof -
  obtain tk s1 where e: "ensureCsrfToken env s = (tk, s1)" by (metis surj_pair)
  note f = ensureCsrfToken_fields [OF e]
  let ?rq = "requestBody s1 ctx q tk"
  show ?thesis
  proof (cases "postQuestion env ?rq")
    case NetworkError
    then show ?thesis using f by (simp add: sendQuestion_try_def e)
  next
    case (Response st body)
    let ?s2 = "removeTypingIndicator (emit (PostQuestion ?rq) s1)"
    have s2: "chatSessions ?s2 = chatSessions s" using f by (simp add: removeTypingIndicator_def)
    show ?thesis
    proof (cases "ok st \<and> body \<noteq> None \<and> body \<noteq> Some JNull")
      case False
      then show ?thesis using Response s2
        by (auto simp: sendQuestion_try_def e Let_def addMessageToChat_def get_prop_def
            split: option.splits)
    next
      case True
      then obtain data where d: "body = Some data" "data \<noteq> JNull" "ok st" by auto
      let ?s3 = "addMessageToChat (property data ''answer'') False ?s2"
      have s3: "chatSessions ?s3 = chatSessions s" using s2 by (simp add: addMessageToChat_def)
      obtain r s4 where p: "persistSession env data q ?s3 = (r, s4)" by (metis surj_pair)
      have t: "chatSessions (snd (sendQuestion_try env q ctx s)) = chatSessions s4"
        using Response d p by (cases r) (simp_all add: sendQuestion_try_def e Let_def get_prop_def)
      from persist_store [of env data q ?s3] show ?thesis
        unfolding t s3 p by simp
    qed
  qed
qed

lemma sendQuestion_store:
  "chatSessions (snd (sendQuestion env s)) = chatSessions s
   \<or> (\<exists>ctx' sid v. set_prop (indexValue (chatSessions s)) (ctx_id ctx')
                     (sessionRecord ctx' sid (clock env)) = Inr v
        \<and> chatSessions (snd (sendQuestion env s)) = Parsed v)"
proof (cases "js_trim (modalQuestionInput s) = [] \<or> currentPaperContext s = None")
  case True
  then have "sendQuestion env s = (None, s)" by (auto simp: sendQuestion_def Let_def)
  then show ?thesis by simp
next
  case False
  then obtain ctx where c: "currentPaperContext s = Some ctx"
    and q: "js_trim (modalQuestionInput s) \<noteq> []" by auto
  let ?q = "js_trim (modalQuestionInput s)"
  obtain r s1 where t: "sendQuestion_try env ?q ctx (prepared ?q s) = (r, s1)" by (metis surj_pair)
  have "chatSessions (snd (sendQuestion env s)) = chatSessions s1"
    by (cases r)
      (simp_all add: sendQuestion_unfold [OF refl q c] t addMessageToChat_def removeTypingIndicator_def)
  with try_store [of env ?q ctx "prepared ?q s"] t show ?thesis by simp
qed

lemma exchange_stamp:
  assumes "stamp_le (lastUsedAt (chatSessions s) p) (Some (clock env))"
  shows "stamp_le (lastUsedAt (chatSessions s) p) (lastUsedAt (chatSessions (snd (sendQuestion env s))) p)
     \<and> stamp_le (lastUsedAt (chatSessions (snd (sendQuestion env s))) p) (Some (clock env))"
proof -
  from sendQuestion_store [of env s] show ?thesis
  proof
    assume "chatSessions (snd (sendQuestion env s)) = chatSessions s"
    with assms show ?thesis by simp
  next
    assume "\<exists>ctx' sid v. set_prop (indexValue (chatSessions s)) (ctx_id ctx')
                     (sessionRecord ctx' sid (clock env)) = Inr v
        \<and> chatSessions (snd (sendQuestion env s)) = Parsed v"
    then obtain ctx' sid v where
      v: "set_prop (indexValue (chatSessions s)) (ctx_id ctx') (sessionRecord ctx' sid (clock env)) = Inr v"
      and c: "chatSessions (snd (sendQuestion env s)) = Parsed v" by blast
    from lastUsedAt_set_prop [OF v, of p] assms show ?thesis
      unfolding c by auto
  qed
qed

lemma stampHistory_bounds:
  assumes "sorted (map (\<lambda>x. clock (fst x)) steps)"
    and "\<forall>x\<in>set steps. stamp_le (lastUsedAt (chatSessions s) p) (Some (clock (fst x)))"
  shows "sorted_wrt stamp_le (stampHistory steps s p)
     \<and> (\<forall>y\<in>set (stampHistory steps s p). stamp_le (lastUsedAt (chatSessions s) p) y)"
  using assms
proof (induction steps arbitrary: s)
  case Nil
  then show ?case by simp
next
  case (Cons x rest)
  obtain env typed where x: "x = (env, typed)" by (cases x)
  let ?s0 = "s\<lparr>modalQuestionInput := typed\<rparr>"
  let ?s' = "snd (sendQuestion env ?s0)"
  have b: "stamp_le (lastUsedAt (chatSessions ?s0) p) (Some (clock env))"
    using Cons.prems(2) x by simp
  from exchange_stamp [OF b]
  have m: "stamp_le (lastUsedAt (chatSessions s) p) (lastUsedAt (chatSessions ?s') p)"
    and u: "stamp_le (lastUsedAt (chatSessions ?s') p) (Some (clock env))" by simp_all
  have srt: "sorted (map (\<lambda>x. clock (fst x)) rest)" using Cons.prems(1) by simp
  have bnd: "\<forall>y\<in>set rest. stamp_le (lastUsedAt (chatSessions ?s') p) (Some (clock (fst y)))"
  proof
    fix y assume y: "y \<in> set rest"
    with Cons.prems(1) x have "clock env \<le> clock (fst y)" by auto
    then have "stamp_le (Some (clock env)) (Some (clock (fst y)))" by simp
    with u show "stamp_le (lastUsedAt (chatSessions ?s') p) (Some (clock (fst y)))"
      by (rule stamp_le_trans)
  qed
  from Cons.IH [OF srt bnd]
  have ih1: "sorted_wrt stamp_le (stampHistory rest ?s' p)"
    and ih2: "\<forall>y\<in>set (stampHistory rest ?s' p). stamp_le (lastUsedAt (chatSessions ?s') p) y"
    by simp_all
  have all: "\<forall>y\<in>set (stampHistory rest ?s' p). stamp_le (lastUsedAt (chatSessions s) p) y"
    using ih2 m by (blast intro: stamp_le_trans)
  show ?case using ih1 all by (simp add: x)
qed

text \<open>
  C8, as the code has it. Along a sequence of exchanges whose clock readings do not go
  back, and start no earlier than the stamp already stored for the paper, the
  \<^verbatim>\<open>lastUsed\<close> stamp stored for the paper never decreases: whatever the outcome of
  an exchange, the stamp of every paper is afterwards what it was or the reading of the
  clock at that exchange.
\<close>

theorem lastUsed_is_monotone:
  assumes "sorted (map (\<lambda>x. clock (fst x)) steps)"
    and "\<forall>x\<in>set steps. stamp_le (lastUsedAt (chatSessions s) p) (Some (clock (fst x)))"
  shows "sorted_wrt stamp_le (stampHistory steps s p)"
  using stampHistory_bounds [OF assms] by simp


lemma two_exchanges_history:
  "stampHistory
     [(world NetworkError NetworkError (Response 200 (Some (answerBody ''S1'' True))) 5, ''hi''),
      (world NetworkError NetworkError (Response 200 (Some (answerBody ''S1'' False))) 9, ''why'')]
     (page (Some ''tok'') NoItem (Some (contextOf ''P1'' ''T'' None)) []) ''P1''
   = [None, Some 5, Some 9]"
  by (simp add: sendQuestion_def sendQuestion_try_def persistSession_def updateSidebar_def
      addChatSessionToSidebar_def updateChatSessionInSidebar_def guestReminder_def
      ensureCsrfToken_def requestBody_def readSavedSessions_def writeSavedSessions_def
      addMessageToChat_def showTypingIndicator_def removeTypingIndicator_def
      sessionRecord_def truthy_opt_def get_prop_def isUserLoggedIn_def getToken_def
      page_def world_def contextOf_def answerBody_def ok_def emit_def js_trim_def is_space_def
      lastUsedAt_def indexValue_def shortQuestion_def attrSelectorValue_def touchItem_def
      historyListItems_def Let_def)

theorem lastUsed_is_monotone_witness:
  "sorted_wrt stamp_le (stampHistory
     [(world NetworkError NetworkError (Response 200 (Some (answerBody ''S1'' True))) 5, ''hi''),
      (world NetworkError NetworkError (Response 200 (Some (answerBody ''S1'' False))) 9, ''why'')]
     (page (Some ''tok'') NoItem (Some (contextOf ''P1'' ''T'' None)) []) ''P1'')
   \<and> stampHistory
     [(world NetworkError NetworkError (Response 200 (Some (answerBody ''S1'' True))) 5, ''hi''),
      (world NetworkError NetworkError (Response 200 (Some (answerBody ''S1'' False))) 9, ''why'')]
     (page (Some ''tok'') NoItem (Some (contextOf ''P1'' ''T'' None)) []) ''P1''
     = [None, Some 5, Some 9]"
proof -
  let ?steps = "[(world NetworkError NetworkError (Response 200 (Some (answerBody ''S1'' True))) 5, ''hi''),
      (world NetworkError NetworkError (Response 200 (Some (answerBody ''S1'' False))) 9, ''why'')]"
  let ?s = "page (Some ''tok'') NoItem (Some (contextOf ''P1'' ''T'' None)) []"
  have a: "sorted (map (\<lambda>x. clock (fst x)) ?steps)" by (simp add: world_def)
  have b: "\<forall>x\<in>set ?steps. stamp_le (lastUsedAt (chatSessions ?s) ''P1'') (Some (clock (fst x)))"
    by (simp add: lastUsedAt_def indexValue_def page_def)
  from lastUsed_is_monotone [OF a b] two_exchanges_history show ?thesis by simp
qed

text \<open>
  The stamp is the clock as it is read, never compared with the stamp it replaces: two
  answered exchanges for a paper, the first at instant 9 and the second at instant 5,
  leave the stamps 9 and then 5.
\<close>

theorem lastUsed_goes_back_with_the_clock:
  "stampHistory
     [(world NetworkError NetworkError (Response 200 (Some (answerBody ''S1'' True))) 9, ''hi''),
      (world NetworkError NetworkError (Response 200 (Some (answerBody ''S1'' False))) 5, ''why'')]
     (page (Some ''tok'') NoItem (Some (contextOf ''P1'' ''T'' None)) []) ''P1''
   = [None, Some 9, Some 5]
   \<and> \<not> sorted_wrt stamp_le (stampHistory
     [(world NetworkError NetworkError (Response 200 (Some (answerBody ''S1'' True))) 9, ''hi''),
      (world NetworkError NetworkError (Response 200 (Some (answerBody ''S1'' False))) 5, ''why'')]
     (page (Some ''tok'') NoItem (Some (contextOf ''P1'' ''T'' None)) []) ''P1'')"
  by (simp add: sendQuestion_def sendQuestion_try_def persistSession_def updateSidebar_def
      addChatSessionToSidebar_def updateChatSessionInSidebar_def guestReminder_def
      ensureCsrfToken_def requestBody_def readSavedSessions_def writeSavedSessions_def
      addMessageToChat_def showTypingIndicator_def removeTypingIndicator_def
      sessionRecord_def truthy_opt_def get_prop_def isUserLoggedIn_def getToken_def
      page_def world_def contextOf_def answerBody_def ok_def emit_def js_trim_def is_space_def
      lastUsedAt_def indexValue_def shortQuestion_def attrSelectorValue_def touchItem_def
      historyListItems_def Let_def)

end
